theory Spec2Isabelle
  imports Complex_Main
begin

section \<open>JavaScript values used by the lifecycle controller\<close>

text \<open>
  Numbers that result from a division are kept in \<open>jsnum\<close>: a finite value (an exact
  rational; rounding of doubles is not modelled), the two infinities or NaN, so that a
  division by zero is the value JavaScript computes and not HOL's \<open>x / 0 = 0\<close>.
\<close>

datatype jsnum = Fin rat | PosInf | NegInf | NaN

text \<open>
  What a property lookup on an object literal can give besides \<open>undefined\<close>: a number
  of the literal, or a member inherited from \<open>Object.prototype\<close>, named by its key
  (a function, or the prototype itself for \<open>__proto__\<close>): truthy and not a number.
\<close>

datatype jsval = Num rat | Inherited string

text \<open>\<open>a / b\<close> on finite operands.\<close>

definition js_div :: "rat \<Rightarrow> rat \<Rightarrow> jsnum" where
  "js_div a b =
     (if b = 0 then (if a = 0 then NaN else if 0 < a then PosInf else NegInf)
      else Fin (a / b))"

text \<open>\<open>Math.min(x, c)\<close> for a finite constant \<open>c\<close>.\<close>

fun js_min :: "jsnum \<Rightarrow> rat \<Rightarrow> jsnum" where
  "js_min (Fin a) c = Fin (min a c)"
| "js_min PosInf c = Fin c"
| "js_min NegInf c = NegInf"
| "js_min NaN c = NaN"

text \<open>\<open>x >= c\<close> for a finite constant \<open>c\<close>: false on NaN.\<close>

fun js_ge :: "jsnum \<Rightarrow> rat \<Rightarrow> bool" where
  "js_ge (Fin a) c = (c \<le> a)"
| "js_ge PosInf c = True"
| "js_ge NegInf c = False"
| "js_ge NaN c = False"

text \<open>\<open>x || d\<close> on a finite number: zero is falsy.\<close>

definition js_or :: "rat \<Rightarrow> rat \<Rightarrow> rat" where
  "js_or x d = (if x = 0 then d else x)"

text \<open>A timestamp field that may still be \<open>null\<close>; in a subtraction \<open>null\<close> counts as 0.\<close>

definition num_of_null :: "int option \<Rightarrow> int" where
  "num_of_null t = (case t of None \<Rightarrow> 0 | Some n \<Rightarrow> n)"

section \<open>config.js: the timing tables\<close>

record standard_timings =
  healthy :: rat
  panic :: rat
  decay :: rat
  death :: rat
  total :: rat

record pirate_timings =
  fadeOutDuration :: rat
  colorShiftDuration :: rat
  fadeInDuration :: rat

definition CONFIG_timings_standard :: standard_timings where
  "CONFIG_timings_standard =
     \<lparr>healthy = 24000, panic = 3000, decay = 3000, death = 2000, total = 32000\<rparr>"

definition CONFIG_timings_pirate :: pirate_timings where
  "CONFIG_timings_pirate =
     \<lparr>fadeOutDuration = 3000, colorShiftDuration = 7000, fadeInDuration = 2000\<rparr>"

section \<open>decay-core.js: the lifecycle controller and its host\<close>

text \<open>
  Subscribers and user callbacks act on a world \<open>'w\<close> of their own (the resources of the
  audio, particle and beam modules); they do not reach back into the controller.
  A listener either returns or throws, and in both cases leaves a world behind.
\<close>

datatype 'w outcome = Returns 'w | Throws 'w

type_synonym 'w listener = "string option \<Rightarrow> jsnum \<Rightarrow> 'w \<Rightarrow> 'w outcome"

text \<open>The two arrow functions handed to \<open>setInterval\<close>.\<close>

datatype handler = Tick | TransitionTick

text \<open>
  The completion callbacks handed to \<open>startTransition\<close>: the closure of \<open>beginDeath\<close>,
  the closure of \<open>enterPirateMode\<close>, or a function of the caller.
\<close>

datatype 'w callback = DeathDone | PirateDone | External "'w \<Rightarrow> 'w"

text \<open>
  The closures handed to \<open>setTimeout\<close>: the one of \<open>beginDeath\<close> (hide the page
  container, call \<open>window.prepareDeathScreen\<close>) and the one of \<open>enterPirateMode\<close>
  (call \<open>onFadeComplete\<close> when it is given).
\<close>

datatype 'w timeout_fn = is_DeathGasp: DeathGasp | FadeComplete "('w \<Rightarrow> 'w) option"

text \<open>
  One record holds the fields of the \<open>decay\<close> object and, below them, the part of the
  browser it uses: the clock read by \<open>Date.now()\<close> (milliseconds), the table of active
  intervals, the pending timeouts with their delay, the last handle handed out, the
  \<open>display\<close> style of the element \<open>pageContainer\<close> (\<open>None\<close> when the page has no
  such element), \<open>window.prepareDeathScreen\<close> and the subscribers' world.
\<close>

record 'w decay_core =
  stage :: "string option"
  progress :: jsnum
  lastInteraction :: "int option"
  timer :: "nat option"
  listeners :: "'w listener list"
  isDead :: bool
  permanentPirateMode :: bool
  isTransitioning :: bool
  transitionStartTime :: "int option"
  transitionDuration :: "rat option"
  transitionCallback :: "'w callback option"
  transitionToStage :: "string option"
  previousStage :: "string option"
  clock :: int
  intervals :: "(nat \<times> handler) list"
  timeouts :: "(nat \<times> rat \<times> 'w timeout_fn) list"
  lastHandle :: nat
  pageContainer :: "string option"
  prepareDeathScreen :: "('w \<Rightarrow> 'w) option"
  world :: 'w

text \<open>The object literal as the script leaves it, on a page that has just loaded.\<close>

definition initial :: "string option \<Rightarrow> ('w \<Rightarrow> 'w) option \<Rightarrow> int \<Rightarrow> 'w \<Rightarrow> 'w decay_core" where
  "initial page pds t w =
     \<lparr>stage = Some ''pirate'', progress = Fin 0, lastInteraction = None, timer = None,
      listeners = [], isDead = False, permanentPirateMode = True, isTransitioning = False,
      transitionStartTime = None, transitionDuration = None, transitionCallback = None,
      transitionToStage = None, previousStage = None,
      clock = t, intervals = [], timeouts = [], lastHandle = 0,
      pageContainer = page, prepareDeathScreen = pds, world = w\<rparr>"

subsection \<open>Host timers\<close>

text \<open>
  \<open>setInterval\<close> and \<open>setTimeout\<close> hand out a fresh positive handle from one pool;
  every interval of this file has period 100.
\<close>

definition setInterval :: "handler \<Rightarrow> 'w decay_core \<Rightarrow> nat \<times> 'w decay_core" where
  "setInterval h s =
     (let i = Suc (lastHandle s)
      in (i, s\<lparr>intervals := intervals s @ [(i, h)], lastHandle := i\<rparr>))"

definition setTimeout :: "'w timeout_fn \<Rightarrow> rat \<Rightarrow> 'w decay_core \<Rightarrow> 'w decay_core" where
  "setTimeout f delay s =
     (let i = Suc (lastHandle s)
      in s\<lparr>timeouts := timeouts s @ [(i, delay, f)], lastHandle := i\<rparr>)"

text \<open>
  \<open>clearInterval(x)\<close>: nothing happens for \<open>null\<close> or an unknown handle. The handle
  kept in \<open>timer\<close> always comes from \<open>setInterval\<close>, so it never names a timeout.
\<close>

definition clearInterval :: "nat option \<Rightarrow> 'w decay_core \<Rightarrow> 'w decay_core" where
  "clearInterval t s =
     (case t of
        None \<Rightarrow> s
      | Some i \<Rightarrow> s\<lparr>intervals := filter (\<lambda>e. fst e \<noteq> i) (intervals s)\<rparr>)"

text \<open>The host hands out increasing handles: none in use exceeds the last one.\<close>

definition fresh_handles :: "'w decay_core \<Rightarrow> bool" where
  "fresh_handles s = list_all (\<lambda>e. fst e \<le> lastHandle s) (intervals s)"

text \<open>\<open>if (this.timer)\<close>: \<open>null\<close> and 0 are falsy.\<close>

definition truthy :: "nat option \<Rightarrow> bool" where
  "truthy t = (case t of None \<Rightarrow> False | Some i \<Rightarrow> i \<noteq> 0)"

subsection \<open>Pub/sub\<close>

text \<open>\<open>listeners.forEach\<close> with the \<open>try\<close>/\<open>catch\<close> around each call.\<close>

fun forEach_listener :: "'w listener list \<Rightarrow> string option \<Rightarrow> jsnum \<Rightarrow> 'w \<Rightarrow> 'w" where
  "forEach_listener [] st p w = w"
| "forEach_listener (cb # cbs) st p w =
     (case cb st p w of
        Returns w' \<Rightarrow> forEach_listener cbs st p w'
      | Throws w' \<Rightarrow> forEach_listener cbs st p w')"

definition notify :: "'w decay_core \<Rightarrow> 'w decay_core" where
  "notify s = s\<lparr>world := forEach_listener (listeners s) (stage s) (progress s) (world s)\<rparr>"

text \<open>\<open>subscribe(callback)\<close>; \<open>None\<close> stands for an argument that is not a function.\<close>

definition subscribe :: "'w listener option \<Rightarrow> 'w decay_core \<Rightarrow> 'w decay_core" where
  "subscribe callback s =
     (case callback of
        None \<Rightarrow> s
      | Some f \<Rightarrow> s\<lparr>listeners := listeners s @ [f]\<rparr>)"

subsection \<open>Transitions\<close>

definition run_callback :: "'w callback \<Rightarrow> 'w decay_core \<Rightarrow> 'w decay_core" where
  "run_callback cb s =
     (case cb of
        DeathDone \<Rightarrow> s\<lparr>isDead := True\<rparr>
      | PirateDone \<Rightarrow>
          s\<lparr>isDead := True,
            pageContainer := (case pageContainer s of None \<Rightarrow> None | Some d \<Rightarrow> Some ''none'')\<rparr>
      | External f \<Rightarrow> s\<lparr>world := f (world s)\<rparr>)"

definition startTransition ::
  "string \<Rightarrow> rat \<Rightarrow> 'w callback option \<Rightarrow> 'w decay_core \<Rightarrow> 'w decay_core" where
  "startTransition toStage duration onComplete s =
     (let s1 = s\<lparr>previousStage := stage s\<rparr>;
          s2 = (if truthy (timer s1) then (clearInterval (timer s1) s1)\<lparr>timer := None\<rparr> else s1);
          s3 = s2\<lparr>isTransitioning := True,
                  transitionStartTime := Some (clock s2),
                  transitionDuration := Some duration,
                  transitionToStage := Some toStage,
                  transitionCallback := onComplete\<rparr>;
          (i, s4) = setInterval TransitionTick s3
      in s4\<lparr>timer := Some i\<rparr>)"

definition updateTransition :: "'w decay_core \<Rightarrow> 'w decay_core" where
  "updateTransition s =
     (let elapsed = clock s - num_of_null (transitionStartTime s);
          duration = (case transitionDuration s of None \<Rightarrow> 0 | Some d \<Rightarrow> d);
          s1 = s\<lparr>progress := js_min (js_div (of_int elapsed) duration) 1\<rparr>;
          s2 = s1\<lparr>stage := transitionToStage s1\<rparr>;
          s3 = notify s2
      in if js_ge (progress s3) 1 then
           (let s4 = (clearInterval (timer s3) s3)\<lparr>timer := None\<rparr>;
                s5 = s4\<lparr>isTransitioning := False\<rparr>;
                callback = transitionCallback s5;
                s6 = s5\<lparr>transitionCallback := None\<rparr>
            in case callback of None \<Rightarrow> s6 | Some cb \<Rightarrow> run_callback cb s6)
         else s3)"

definition beginDeath :: "'w decay_core \<Rightarrow> 'w decay_core" where
  "beginDeath s =
     (if isDead s then s
      else
        (let timing = CONFIG_timings_standard;
             deathDuration = js_or (death timing) 2000;
             s1 = setTimeout DeathGasp (deathDuration * (3 / 4)) s
         in startTransition ''death'' deathDuration (Some DeathDone) s1))"

definition enterPirateMode :: "('w \<Rightarrow> 'w) option \<Rightarrow> 'w decay_core \<Rightarrow> 'w decay_core" where
  "enterPirateMode onFadeComplete s =
     (let fadeOut = js_or (fadeOutDuration CONFIG_timings_pirate) 3000;
          fullDuration = js_or (colorShiftDuration CONFIG_timings_pirate) 7000;
          s1 = startTransition ''pirate'' fullDuration (Some PirateDone) s
      in setTimeout (FadeComplete onFadeComplete) fadeOut s1)"

subsection \<open>Birth, stimulus and the metabolic pulse\<close>

definition start :: "'w decay_core \<Rightarrow> 'w decay_core" where
  "start s =
     (let s1 = s\<lparr>isDead := False, isTransitioning := False, lastInteraction := Some (clock s)\<rparr>
      in if permanentPirateMode s1 then
           notify (s1\<lparr>stage := Some ''pirate'', progress := Fin 1\<rparr>)
         else
           (let (i, s2) = setInterval Tick s1
            in notify (s2\<lparr>timer := Some i\<rparr>)))"

definition reset :: "'w decay_core \<Rightarrow> 'w decay_core" where
  "reset s =
     (if isDead s \<or> isTransitioning s \<or> permanentPirateMode s then s
      else s\<lparr>lastInteraction := Some (clock s)\<rparr>)"

definition update :: "'w decay_core \<Rightarrow> 'w decay_core" where
  "update s =
     (if permanentPirateMode s then s
      else if isTransitioning s then updateTransition s
      else if isDead s then s
      else
        (let elapsed = of_int (clock s - num_of_null (lastInteraction s));
             timing = CONFIG_timings_standard
         in if elapsed < healthy timing then
              notify (s\<lparr>stage := Some ''healthy'',
                        progress := js_div elapsed (healthy timing)\<rparr>)
            else if elapsed < healthy timing + panic timing then
              notify (s\<lparr>stage := Some ''panic'',
                        progress := js_div (elapsed - healthy timing) (panic timing)\<rparr>)
            else if elapsed < healthy timing + panic timing + decay timing then
              notify (s\<lparr>stage := Some ''decay'',
                        progress := js_div (elapsed - healthy timing - panic timing) (decay timing)\<rparr>)
            else if elapsed < healthy timing + panic timing + decay timing + death timing then
              (let s1 = s\<lparr>stage := Some ''death'',
                          progress := js_div (elapsed - healthy timing - panic timing - decay timing)
                                             (death timing)\<rparr>
               in if js_ge (progress s1) 1 then beginDeath s1 else notify s1)
            else beginDeath s))"

subsection \<open>Manual intervention and disposal\<close>

definition setStage :: "string option \<Rightarrow> jsnum \<Rightarrow> 'w decay_core \<Rightarrow> 'w decay_core" where
  "setStage st p s = notify (s\<lparr>stage := st, progress := p\<rparr>)"

definition pause :: "'w decay_core \<Rightarrow> 'w decay_core" where
  "pause s = (if truthy (timer s) then (clearInterval (timer s) s)\<lparr>timer := None\<rparr> else s)"

definition resume :: "'w decay_core \<Rightarrow> 'w decay_core" where
  "resume s =
     (if \<not> truthy (timer s) \<and> \<not> isDead s \<and> \<not> isTransitioning s \<and> \<not> permanentPirateMode s then
        (let (i, s1) = setInterval Tick s in s1\<lparr>timer := Some i\<rparr>)
      else s)"

definition destroy :: "'w decay_core \<Rightarrow> 'w decay_core" where
  "destroy s =
     (let s1 = (if truthy (timer s) then (clearInterval (timer s) s)\<lparr>timer := None\<rparr> else s)
      in s1\<lparr>listeners := [], isDead := False, isTransitioning := False\<rparr>)"

subsection \<open>The event loop\<close>

text \<open>
  Time passes between callbacks, never inside one. An interval fires only while it is
  in the table of active intervals.
\<close>

definition elapse :: "nat \<Rightarrow> 'w decay_core \<Rightarrow> 'w decay_core" where
  "elapse ms s = s\<lparr>clock := clock s + int ms\<rparr>"

definition fire_interval :: "nat \<Rightarrow> 'w decay_core \<Rightarrow> 'w decay_core" where
  "fire_interval i s =
     (case map_of (intervals s) i of
        None \<Rightarrow> s
      | Some Tick \<Rightarrow> update s
      | Some TransitionTick \<Rightarrow> updateTransition s)"

text \<open>The bodies of the two timeout closures; a timeout fires once and is then gone.\<close>

definition run_timeout :: "'w timeout_fn \<Rightarrow> 'w decay_core \<Rightarrow> 'w decay_core" where
  "run_timeout f s =
     (case f of
        DeathGasp \<Rightarrow>
          (let s1 = s\<lparr>pageContainer :=
                        (case pageContainer s of None \<Rightarrow> None | Some d \<Rightarrow> Some ''none'')\<rparr>
           in case prepareDeathScreen s1 of
                None \<Rightarrow> s1
              | Some g \<Rightarrow> s1\<lparr>world := g (world s1)\<rparr>)
      | FadeComplete g \<Rightarrow>
          (case g of None \<Rightarrow> s | Some h \<Rightarrow> s\<lparr>world := h (world s)\<rparr>))"

definition fire_timeout :: "nat \<Rightarrow> 'w decay_core \<Rightarrow> 'w decay_core" where
  "fire_timeout i s =
     (case find (\<lambda>e. fst e = i) (timeouts s) of
        None \<Rightarrow> s
      | Some e \<Rightarrow> run_timeout (snd (snd e)) (s\<lparr>timeouts := filter (\<lambda>e. fst e \<noteq> i) (timeouts s)\<rparr>))"

text \<open>Everything that can happen to the controller, as one step function.\<close>

datatype 'w op =
    Start | Reset | StartTransition string rat "'w callback option" | BeginDeath
  | EnterPirateMode "('w \<Rightarrow> 'w) option" | Subscribe "'w listener option"
  | SetStage "string option" jsnum | Pause | Resume | Destroy
  | Elapse nat | FireInterval nat | FireTimeout nat

fun apply_op :: "'w op \<Rightarrow> 'w decay_core \<Rightarrow> 'w decay_core" where
  "apply_op Start s = start s"
| "apply_op Reset s = reset s"
| "apply_op (StartTransition toStage d cb) s = startTransition toStage d cb s"
| "apply_op BeginDeath s = beginDeath s"
| "apply_op (EnterPirateMode f) s = enterPirateMode f s"
| "apply_op (Subscribe f) s = subscribe f s"
| "apply_op (SetStage st p) s = setStage st p s"
| "apply_op Pause s = pause s"
| "apply_op Resume s = resume s"
| "apply_op Destroy s = destroy s"
| "apply_op (Elapse ms) s = elapse ms s"
| "apply_op (FireInterval i) s = fire_interval i s"
| "apply_op (FireTimeout i) s = fire_timeout i s"

definition run_ops :: "'w op list \<Rightarrow> 'w decay_core \<Rightarrow> 'w decay_core" where
  "run_ops ops s = fold apply_op ops s"

text \<open>
  Observation helpers for the properties below: the state in which \<open>t\<close> milliseconds have
  passed since \<open>lastInteraction\<close>, and the position of a stage along the life cycle.
\<close>

definition since_interaction :: "int \<Rightarrow> 'w decay_core \<Rightarrow> 'w decay_core" where
  "since_interaction t s = s\<lparr>clock := num_of_null (lastInteraction s) + t\<rparr>"

definition stage_rank :: "string option \<Rightarrow> nat" where
  "stage_rank st =
     (if st = Some ''healthy'' then 0 else if st = Some ''panic'' then 1
      else if st = Some ''decay'' then 2 else if st = Some ''death'' then 3 else 4)"

text \<open>
  A run of one interval: before each firing some milliseconds pass. The two predicates
  name the controller's situation while a transition is under way and once it is over.
\<close>

definition run_ticks :: "nat \<Rightarrow> nat list \<Rightarrow> 'w decay_core \<Rightarrow> 'w decay_core" where
  "run_ticks i dts s = fold (\<lambda>ms s'. fire_interval i (elapse ms s')) dts s"

definition transition_active ::
  "nat \<Rightarrow> string \<Rightarrow> rat \<Rightarrow> int \<Rightarrow> 'w callback option \<Rightarrow> 'w decay_core \<Rightarrow> bool" where
  "transition_active i toStage d t0 cb s \<longleftrightarrow>
     isTransitioning s \<and> timer s = Some i \<and> map_of (intervals s) i = Some TransitionTick \<and>
     transitionStartTime s = Some t0 \<and> transitionDuration s = Some d \<and>
     transitionToStage s = Some toStage \<and> transitionCallback s = cb"

definition transition_done :: "nat \<Rightarrow> string \<Rightarrow> 'w decay_core \<Rightarrow> bool" where
  "transition_done i toStage s \<longleftrightarrow>
     \<not> isTransitioning s \<and> timer s = None \<and> map_of (intervals s) i = None \<and>
     transitionCallback s = None \<and> stage s = Some toStage \<and> progress s = Fin 1"

definition finish_transition :: "nat \<Rightarrow> 'w callback option \<Rightarrow> 'w decay_core \<Rightarrow> 'w decay_core" where
  "finish_transition i cb n =
     (let f = (clearInterval (Some i) n)
                \<lparr>timer := None, isTransitioning := False, transitionCallback := None\<rparr>
      in case cb of None \<Rightarrow> f | Some c \<Rightarrow> run_callback c f)"

text \<open>
  The world a call leaves behind, whether it returned or threw; and a listener wrapped so
  that the world also keeps a log of the calls made: which listener, with which stage and
  progress.
\<close>

definition left_by :: "'w outcome \<Rightarrow> 'w" where
  "left_by r = (case r of Returns w \<Rightarrow> w | Throws w \<Rightarrow> w)"

type_synonym call_log = "(nat \<times> string option \<times> jsnum) list"

definition recording :: "nat \<times> 'w listener \<Rightarrow> ('w \<times> call_log) listener" where
  "recording kf st p wl =
     (case snd kf st p (fst wl) of
        Returns w \<Rightarrow> Returns (w, snd wl @ [(fst kf, st, p)])
      | Throws w \<Rightarrow> Throws (w, snd wl @ [(fst kf, st, p)]))"

text \<open>
  Example pages. The world is a counter; the first subscriber throws, the second counts
  its calls. \<open>permanent_page\<close> is the object as shipped, \<open>standard_page\<close> the same in
  standard mode; the page was loaded at time 5000.
\<close>

definition permanent_page :: "nat decay_core" where
  "permanent_page =
     subscribe (Some (\<lambda>st p w. Returns (Suc w)))
       (subscribe (Some (\<lambda>st p w. Throws w)) (initial (Some ''block'') None 5000 0))"

definition standard_page :: "nat decay_core" where
  "standard_page = permanent_page\<lparr>permanentPirateMode := False\<rparr>"

text \<open>
  The standard page after \<open>start\<close>, \<open>enterPirateMode\<close> without a callback, and two
  firings of the transition interval, 3000 and 7000 ms after the entry.
\<close>

definition pirate_entered :: "nat decay_core" where
  "pirate_entered = run_ticks 2 [3000, 4000] (enterPirateMode None (start standard_page))"

text \<open>
  The timer discipline: no interval is active and \<open>timer\<close> is empty, or exactly one is
  active and \<open>timer\<close> holds its handle.
\<close>

definition one_timer :: "'w decay_core \<Rightarrow> bool" where
  "one_timer s =
     (case intervals s of
        [] \<Rightarrow> timer s = None
      | [e] \<Rightarrow> timer s = Some (fst e) \<and> 0 < fst e
      | _ \<Rightarrow> False)"


section \<open>The beam scanner\<close>

text \<open>
  Of the beam module the state that \<open>syncToDecay\<close> and \<open>pause\<close> touch: the three DOM
  elements (\<open>None\<close> before \<open>createBeamElements\<close> has run, otherwise their
  \<open>animationPlayState\<close>, the empty string while unset), the custom property
  \<open>--beam-speed\<close> of the root element (the value before the suffix \<open>s\<close>),
  \<open>isPaused\<close> and \<open>currentSpeed\<close>.
\<close>

record beam_module =
  body :: "string option"
  glow :: "string option"
  hotspot :: "string option"
  beam_speed_property :: "jsval option"
  isPaused :: bool
  currentSpeed :: jsval

text \<open>The constructor, and the state after \<open>createBeamElements\<close>.\<close>

definition beam_constructor :: beam_module where
  "beam_constructor =
     \<lparr>body = None, glow = None, hotspot = None, beam_speed_property = None,
      isPaused = False, currentSpeed = Num 8\<rparr>"

definition createBeamElements :: "beam_module \<Rightarrow> beam_module" where
  "createBeamElements b = b\<lparr>body := Some [], glow := Some [], hotspot := Some []\<rparr>"

text \<open>The object literal \<open>speeds\<close>, by its own keys.\<close>

definition speeds :: "(string \<times> rat) list" where
  "speeds = [(''healthy'', 8), (''panic'', 5), (''decay'', 15), (''death'', 0), (''pirate'', 8)]"

text \<open>
  \<open>table[stage]\<close> on an object literal. The key is the stage as a string, \<open>null\<close>
  for a stage that is \<open>null\<close>. An own key gives its number; otherwise the name of a
  member of \<open>Object.prototype\<close> gives that member; otherwise the result is
  \<open>undefined\<close>, here \<open>None\<close>.
\<close>

definition stage_key :: "string option \<Rightarrow> string" where
  "stage_key st = (case st of None \<Rightarrow> ''null'' | Some k \<Rightarrow> k)"

definition object_prototype_keys :: "string list" where
  "object_prototype_keys =
     [''constructor'', ''__defineGetter__'', ''__defineSetter__'', ''hasOwnProperty'',
      ''__lookupGetter__'', ''__lookupSetter__'', ''isPrototypeOf'', ''propertyIsEnumerable'',
      ''toString'', ''valueOf'', ''__proto__'', ''toLocaleString'']"

definition lookup_stage :: "(string \<times> rat) list \<Rightarrow> string option \<Rightarrow> jsval option" where
  "lookup_stage table st =
     (case map_of table (stage_key st) of
        Some v \<Rightarrow> Some (Num v)
      | None \<Rightarrow>
          if stage_key st \<in> set object_prototype_keys then Some (Inherited (stage_key st))
          else None)"

text \<open>
  \<open>table[stage] || d\<close>: a missing key and the number 0 give \<open>d\<close>; an inherited
  member is truthy and stays.
\<close>

definition lookup_or :: "(string \<times> rat) list \<Rightarrow> string option \<Rightarrow> rat \<Rightarrow> jsval" where
  "lookup_or table st d =
     (case lookup_stage table st of
        None \<Rightarrow> Num d
      | Some (Num v) \<Rightarrow> if v = 0 then Num d else Num v
      | Some (Inherited k) \<Rightarrow> Inherited k)"

definition pause_element :: "string option \<Rightarrow> string option" where
  "pause_element el = (case el of None \<Rightarrow> None | Some ps \<Rightarrow> Some ''paused'')"

definition beam_pause :: "beam_module \<Rightarrow> beam_module" where
  "beam_pause b =
     b\<lparr>isPaused := True, body := pause_element (body b), glow := pause_element (glow b),
       hotspot := pause_element (hotspot b)\<rparr>"

definition beam_syncToDecay :: "string option \<Rightarrow> jsnum \<Rightarrow> beam_module \<Rightarrow> beam_module" where
  "beam_syncToDecay st p b =
     (let newSpeed = lookup_or speeds st 8
      in if newSpeed \<noteq> currentSpeed b then
           (let b1 = b\<lparr>currentSpeed := newSpeed, beam_speed_property := Some newSpeed\<rparr>
            in if st = Some ''death'' then beam_pause b1 else b1)
         else b)"

section \<open>The particle field\<close>

text \<open>
  A particle is its inline style as far as the decay touches it: \<open>opacity\<close> and
  \<open>transition\<close>, the empty string while unset. A layer has its configured count and its
  DOM container: \<open>None\<close> before \<open>createParticleFields\<close> has run, afterwards the
  particles of the container in document order.
\<close>

record particle =
  opacity :: string
  transition :: string

record layer =
  count :: nat
  field :: "particle list option"

record particle_drift =
  far :: layer
  mid :: layer
  near :: layer
  decayState :: "string option"
  particle_decay_multiplier :: "jsval option"

text \<open>
  The constructor on a desktop and on a mobile device, and \<open>createParticleFields\<close>
  with \<open>createAllParticles\<close>.
\<close>

definition particles_constructor :: "bool \<Rightarrow> particle_drift" where
  "particles_constructor isMobile =
     (let particleMultiplier = (if isMobile then 3 / 5 else (1::rat))
      in \<lparr>far = \<lparr>count = nat \<lfloor>25 * particleMultiplier\<rfloor>, field = None\<rparr>,
          mid = \<lparr>count = nat \<lfloor>18 * particleMultiplier\<rfloor>, field = None\<rparr>,
          near = \<lparr>count = nat \<lfloor>7 * particleMultiplier\<rfloor>, field = None\<rparr>,
          decayState = Some ''healthy'', particle_decay_multiplier = None\<rparr>)"

definition createLayerParticles :: "layer \<Rightarrow> layer" where
  "createLayerParticles l =
     l\<lparr>field := Some (replicate (count l) \<lparr>opacity = [], transition = []\<rparr>)\<rparr>"

definition createAllParticles :: "particle_drift \<Rightarrow> particle_drift" where
  "createAllParticles pd =
     pd\<lparr>far := createLayerParticles (far pd), mid := createLayerParticles (mid pd),
        near := createLayerParticles (near pd)\<rparr>"

definition opacityMultipliers :: "(string \<times> rat) list" where
  "opacityMultipliers =
     [(''healthy'', 1), (''panic'', 4 / 5), (''decay'', 1 / 2), (''death'', 1 / 5)]"

text \<open>The inner \<open>forEach\<close> of \<open>fadeOutRandomParticles\<close> over one container.\<close>

definition fade :: "particle \<Rightarrow> particle" where
  "fade q = q\<lparr>transition := ''opacity 2s ease-out'', opacity := ''0''\<rparr>"

definition fade_from :: "nat \<Rightarrow> particle list \<Rightarrow> particle list" where
  "fade_from targetCount ps =
     map (\<lambda>ip. if targetCount \<le> fst ip then fade (snd ip) else snd ip) (enumerate 0 ps)"

text \<open>
  One layer of the outer \<open>forEach\<close>; reading \<open>querySelectorAll\<close> from a container
  that is still \<open>null\<close> throws.
\<close>

definition fade_layer :: "rat \<Rightarrow> layer \<Rightarrow> layer option" where
  "fade_layer targetRatio l =
     (case field l of
        None \<Rightarrow> None
      | Some particles \<Rightarrow>
          (let targetCount = nat \<lfloor>of_nat (length particles) * targetRatio\<rfloor>
           in Some (l\<lparr>field := Some (fade_from targetCount particles)\<rparr>)))"

text \<open>
  The layers are visited in the order far, mid, near; a throw leaves the layers already
  visited faded.
\<close>

definition fadeOutRandomParticles :: "rat \<Rightarrow> particle_drift \<Rightarrow> particle_drift outcome" where
  "fadeOutRandomParticles targetRatio pd =
     (case fade_layer targetRatio (far pd) of
        None \<Rightarrow> Throws pd
      | Some f \<Rightarrow>
          (let pd1 = pd\<lparr>far := f\<rparr>
           in case fade_layer targetRatio (mid pd1) of
                None \<Rightarrow> Throws pd1
              | Some m \<Rightarrow>
                  (let pd2 = pd1\<lparr>mid := m\<rparr>
                   in case fade_layer targetRatio (near pd2) of
                        None \<Rightarrow> Throws pd2
                      | Some n \<Rightarrow> Returns (pd2\<lparr>near := n\<rparr>))))"

definition particles_syncToDecay ::
  "string option \<Rightarrow> jsnum \<Rightarrow> particle_drift \<Rightarrow> particle_drift outcome" where
  "particles_syncToDecay st p pd =
     (let pd1 = pd\<lparr>decayState := st\<rparr>;
          multiplier = lookup_or opacityMultipliers st 1;
          pd2 = pd1\<lparr>particle_decay_multiplier := Some multiplier\<rparr>
      in if st = Some ''decay'' then fadeOutRandomParticles (2 / 5) pd2
         else if st = Some ''death'' then fadeOutRandomParticles 0 pd2
         else Returns pd2)"

text \<open>
  A desktop particle field after \<open>init\<close>, and the same field when its first particle of
  the near layer has already been faded.
\<close>

definition desktop_field :: particle_drift where
  "desktop_field = createAllParticles (particles_constructor False)"

section \<open>The audio engine: volume control\<close>

text \<open>
  A gain node is the value last assigned to \<open>gain.value\<close> and the targets of the
  exponential ramps scheduled on it, oldest first; a new node has the Web Audio default
  gain 1. An oscillator is its frequency. The record holds the fields of the engine that
  the volume control reads or writes; \<open>has_context\<close> says that \<open>context\<close> (and with it
  \<open>nodes.masterGain\<close>) exists.
\<close>

record gain_node =
  gain_value :: rat
  ramps :: "rat list"

record audio =
  volumeLevel :: int
  has_context :: bool
  ready :: bool
  baseVolume :: rat
  isDeathSequence :: bool
  isPirateMode :: bool
  hum :: "rat option"
  humGain :: "gain_node option"
  harmonic2 :: "rat option"
  harmonic2Gain :: "gain_node option"
  harmonic3 :: "rat option"
  harmonic3Gain :: "gain_node option"
  schumannCarrier :: "rat option"
  schumannGain :: "gain_node option"
  schumannLFO :: "rat option"
  schumannLFOGain :: "gain_node option"
  schumannHarmonic :: "rat option"
  schumannHarmonicGain :: "gain_node option"
  beamOsc :: "rat option"
  beamGain :: "gain_node option"

definition audio_constructor :: audio where
  "audio_constructor =
     \<lparr>volumeLevel = 1, has_context = False, ready = False, baseVolume = 1 / 25,
      isDeathSequence = False, isPirateMode = False,
      hum = None, humGain = None, harmonic2 = None, harmonic2Gain = None,
      harmonic3 = None, harmonic3Gain = None,
      schumannCarrier = None, schumannGain = None, schumannLFO = None,
      schumannLFOGain = None, schumannHarmonic = None, schumannHarmonicGain = None,
      beamOsc = None, beamGain = None\<rparr>"

text \<open>
  \<open>init\<close>; the flag says whether the browser lets an \<open>AudioContext\<close> be created.
  The result is the boolean the method resolves to and the new state.
\<close>

definition init :: "bool \<Rightarrow> audio \<Rightarrow> bool \<times> audio" where
  "init available a =
     (if has_context a then (True, a)
      else if available then (True, a\<lparr>has_context := True, ready := True\<rparr>)
      else (False, a))"

text \<open>
  \<open>volumeMultipliers[level]\<close>: \<open>None\<close> is \<open>undefined\<close>, for which every product
  is NaN.
\<close>

definition volumeMultipliers :: "rat list" where
  "volumeMultipliers = [0, 3 / 10, 3 / 5, 1]"

definition multiplier_at :: "int \<Rightarrow> rat option" where
  "multiplier_at level =
     (if 0 \<le> level \<and> level < int (length volumeMultipliers)
      then Some (volumeMultipliers ! nat level) else None)"

definition new_gain :: gain_node where
  "new_gain = \<lparr>gain_value = 1, ramps = []\<rparr>"

text \<open>\<open>exponentialRampToValueAtTime(Math.max(0.001, v), ...)\<close> on a node that exists.\<close>

definition ramp_to :: "rat \<Rightarrow> gain_node option \<Rightarrow> gain_node option" where
  "ramp_to v g =
     (case g of None \<Rightarrow> None | Some n \<Rightarrow> Some (n\<lparr>ramps := ramps n @ [max (1 / 1000) v]\<rparr>))"

definition cleanupCRTHum :: "audio \<Rightarrow> audio" where
  "cleanupCRTHum a =
     a\<lparr>hum := None, harmonic2 := None, harmonic3 := None,
       humGain := None, harmonic2Gain := None, harmonic3Gain := None\<rparr>"

definition cleanupSchumannHum :: "audio \<Rightarrow> audio" where
  "cleanupSchumannHum a =
     a\<lparr>schumannCarrier := None, schumannLFO := None, schumannHarmonic := None,
       schumannGain := None, schumannLFOGain := None, schumannHarmonicGain := None\<rparr>"

definition cleanupBeam :: "audio \<Rightarrow> audio" where
  "cleanupBeam a = a\<lparr>beamOsc := None, beamGain := None\<rparr>"

text \<open>
  \<open>setupCRTHum\<close>. Without a context the first \<open>createOscillator\<close> throws; with a
  level outside the table the first assignment of NaN to \<open>gain.value\<close> throws, when
  the six nodes exist already.
\<close>

definition setupCRTHum :: "audio \<Rightarrow> audio outcome" where
  "setupCRTHum a =
     (let a1 = cleanupCRTHum a
      in if isDeathSequence a1 \<or> isPirateMode a1 then Returns a1
         else if \<not> has_context a1 then Throws a1
         else
           (let a2 = a1\<lparr>hum := Some 60, humGain := Some new_gain,
                         harmonic2 := Some 120, harmonic2Gain := Some new_gain,
                         harmonic3 := Some 180, harmonic3Gain := Some new_gain\<rparr>
            in case multiplier_at (volumeLevel a2) of
                 None \<Rightarrow> Throws a2
               | Some m \<Rightarrow>
                   (let baseLevel = baseVolume a2 * m
                    in Returns
                         (a2\<lparr>humGain := Some (new_gain\<lparr>gain_value := baseLevel\<rparr>),
                             harmonic2Gain := Some (new_gain\<lparr>gain_value := baseLevel * (3 / 10)\<rparr>),
                             harmonic3Gain := Some (new_gain\<lparr>gain_value := baseLevel * (3 / 20)\<rparr>)\<rparr>))))"

text \<open>
  \<open>setupSchumannHum\<close>: the carrier at 62.64 Hz, the LFO at 7.83 Hz with depth 3, the
  harmonic at 125.28 Hz. With a level outside the table the assignment to the carrier's
  gain throws before the harmonic is created.
\<close>

definition setupSchumannHum :: "audio \<Rightarrow> audio outcome" where
  "setupSchumannHum a =
     (let a1 = cleanupSchumannHum a
      in if \<not> has_context a1 then Throws a1
         else
           (let a2 = a1\<lparr>schumannCarrier := Some (1566 / 25), schumannGain := Some new_gain,
                         schumannLFO := Some (783 / 100),
                         schumannLFOGain := Some (new_gain\<lparr>gain_value := 3\<rparr>)\<rparr>
            in case multiplier_at (volumeLevel a2) of
                 None \<Rightarrow> Throws a2
               | Some m \<Rightarrow>
                   (let baseLevel = baseVolume a2 * m
                    in Returns
                         (a2\<lparr>schumannGain := Some (new_gain\<lparr>gain_value := baseLevel * (9 / 5)\<rparr>),
                             schumannHarmonic := Some (3132 / 25),
                             schumannHarmonicGain :=
                               Some (new_gain\<lparr>gain_value := baseLevel * (3 / 5)\<rparr>)\<rparr>))))"

text \<open>
  \<open>updateHumVolumes\<close>. When one of the five gain nodes exists and the target is NaN or
  there is no context, the first ramp throws and nothing has changed.
\<close>

definition updateHumVolumes :: "audio \<Rightarrow> audio outcome" where
  "updateHumVolumes a =
     (if humGain a = None \<and> harmonic2Gain a = None \<and> harmonic3Gain a = None
         \<and> schumannGain a = None \<and> schumannHarmonicGain a = None then Returns a
      else if \<not> has_context a then Throws a
      else
        (case multiplier_at (volumeLevel a) of
           None \<Rightarrow> Throws a
         | Some m \<Rightarrow>
             (let targetVolume = baseVolume a * m
              in Returns
                   (a\<lparr>humGain := ramp_to targetVolume (humGain a),
                      harmonic2Gain := ramp_to (targetVolume * (3 / 10)) (harmonic2Gain a),
                      harmonic3Gain := ramp_to (targetVolume * (3 / 20)) (harmonic3Gain a),
                      schumannGain := ramp_to (targetVolume * (9 / 5)) (schumannGain a),
                      schumannHarmonicGain :=
                        ramp_to (targetVolume * (3 / 5)) (schumannHarmonicGain a)\<rparr>))))"

definition setVolumeLevel :: "int \<Rightarrow> audio \<Rightarrow> audio outcome" where
  "setVolumeLevel level a =
     (let a1 = a\<lparr>volumeLevel := level\<rparr>
      in if volumeLevel a1 = 0 then
           Returns (cleanupBeam (cleanupSchumannHum (cleanupCRTHum a1)))
         else if isPirateMode a1 \<and> schumannCarrier a1 = None then setupSchumannHum a1
         else if \<not> isPirateMode a1 \<and> \<not> isDeathSequence a1 \<and> hum a1 = None then setupCRTHum a1
         else updateHumVolumes a1)"

text \<open>
  The state part of \<open>beginPirateTransition\<close> (its sweep oscillator is local and stops by
  itself) and the closure it hands to \<open>setTimeout\<close>; \<open>onComplete\<close> only logs.
\<close>

definition beginPirateTransition :: "audio \<Rightarrow> audio outcome" where
  "beginPirateTransition a =
     (if \<not> ready a \<or> volumeLevel a = 0 then Returns a
      else
        (let a1 = a\<lparr>isPirateMode := True\<rparr>;
             a2 = a1\<lparr>humGain := ramp_to (1 / 1000) (humGain a1),
                      harmonic2Gain := ramp_to (1 / 1000) (harmonic2Gain a1),
                      harmonic3Gain := ramp_to (1 / 1000) (harmonic3Gain a1)\<rparr>
         in if \<not> has_context a2 then Throws a1
            else case multiplier_at (volumeLevel a2) of
                   None \<Rightarrow> Throws a2
                 | Some m \<Rightarrow> Returns a2))"

definition pirate_transition_timeout :: "audio \<Rightarrow> audio outcome" where
  "pirate_transition_timeout a =
     (let a1 = cleanupCRTHum a
      in if 0 < volumeLevel a1 then setupSchumannHum a1 else Returns a1)"

text \<open>\<open>a % 4\<close>: the remainder takes the sign of \<open>a\<close>.\<close>

definition js_rem4 :: "int \<Rightarrow> int" where
  "js_rem4 a = (if 0 \<le> a then a mod 4 else - ((- a) mod 4))"

text \<open>
  The click handler of the volume button, as far as the engine is concerned: the first
  click initialises the engine and sets level 1, every later one moves to the next level.
\<close>

definition volume_click :: "bool \<Rightarrow> audio \<Rightarrow> audio outcome" where
  "volume_click available a =
     (if \<not> ready a then
        (let r = init available a
         in if \<not> fst r then Returns (snd r) else setVolumeLevel 1 (snd r))
      else setVolumeLevel (js_rem4 (volumeLevel a + 1)) a)"

text \<open>
  Examples: the engine after the first click on the volume button (level 1, CRT hum
  running), and after the pirate transition that follows (Schumann hum running).
\<close>

definition audio_low :: audio where
  "audio_low = left_by (volume_click True audio_constructor)"

definition pirate_audio :: audio where
  "pirate_audio = left_by (pirate_transition_timeout (left_by (beginPirateTransition audio_low)))"

section \<open>Properties of the lifecycle controller\<close>

lemma notify_fields [simp]:
  "stage (notify s) = stage s" "progress (notify s) = progress s"
  by (simp_all add: notify_def)

lemma update_bucket:
  assumes "\<not> permanentPirateMode s" "\<not> isTransitioning s" "\<not> isDead s" "0 \<le> t" "t < 32000"
  shows "stage (update (since_interaction t s)) =
           Some (if t < 24000 then ''healthy'' else if t < 27000 then ''panic''
                 else if t < 30000 then ''decay'' else ''death'')"
    and "progress (update (since_interaction t s)) =
           Fin (if t < 24000 then of_int t / 24000 else if t < 27000 then (of_int t - 24000) / 3000
                 else if t < 30000 then (of_int t - 27000) / 3000 else (of_int t - 30000) / 2000)"
  using assms
  by (simp_all add: update_def since_interaction_def CONFIG_timings_standard_def js_div_def Let_def)

text \<open>
  C1. Standard mode, controller neither transitioning nor dead, \<open>t\<close> milliseconds since
  \<open>lastInteraction\<close> with \<open>0 \<le> t < healthy + panic + decay + death\<close>. One call of
  \<open>update\<close> puts the stage into the bucket of \<open>t\<close> among the cumulative thresholds and
  the progress at the fraction of that bucket's duration already spent, a number in
  \<open>[0, 1]\<close>. The stage never moves backwards as \<open>t\<close> grows, and from one millisecond
  to the next the progress is 0 exactly when the stage has changed.
\<close>

theorem update_standard_buckets:
  assumes "\<not> permanentPirateMode s" and "\<not> isTransitioning s" and "\<not> isDead s"
    and "0 \<le> t"
    and "of_int t < healthy CONFIG_timings_standard + panic CONFIG_timings_standard
                    + decay CONFIG_timings_standard + death CONFIG_timings_standard"
  shows "let T = CONFIG_timings_standard; H = healthy T; P = panic T; D = decay T; X = death T;
             e = of_int t; u = update (since_interaction t s)
         in (e < H \<longrightarrow> stage u = Some ''healthy'' \<and> progress u = Fin (e / H))
          \<and> (H \<le> e \<and> e < H + P \<longrightarrow> stage u = Some ''panic'' \<and> progress u = Fin ((e - H) / P))
          \<and> (H + P \<le> e \<and> e < H + P + D \<longrightarrow>
               stage u = Some ''decay'' \<and> progress u = Fin ((e - H - P) / D))
          \<and> (H + P + D \<le> e \<longrightarrow> stage u = Some ''death'' \<and> progress u = Fin ((e - H - P - D) / X))
          \<and> (\<exists>p. progress u = Fin p \<and> 0 \<le> p \<and> p \<le> 1)
          \<and> (\<forall>t'. 0 \<le> t' \<and> t' \<le> t \<longrightarrow>
                 stage_rank (stage (update (since_interaction t' s))) \<le> stage_rank (stage u))
          \<and> (0 < t \<longrightarrow>
                 (progress u = Fin 0 \<longleftrightarrow> stage u \<noteq> stage (update (since_interaction (t - 1) s))))"
proof -
  have lim: "t < 32000"
    using assms(5) by (simp add: CONFIG_timings_standard_def)
  note b = update_bucket [OF assms(1-3)]
  have st: "stage (update (since_interaction t s)) =
           Some (if t < 24000 then ''healthy'' else if t < 27000 then ''panic''
                 else if t < 30000 then ''decay'' else ''death'')"
    and pr: "progress (update (since_interaction t s)) =
           Fin (if t < 24000 then of_int t / 24000 else if t < 27000 then (of_int t - 24000) / 3000
                 else if t < 30000 then (of_int t - 27000) / 3000 else (of_int t - 30000) / 2000)"
    using b [OF assms(4) lim] by simp_all
  have mono: "stage_rank (stage (update (since_interaction t' s)))
                \<le> stage_rank (stage (update (since_interaction t s)))"
    if "0 \<le> t'" "t' \<le> t" for t'
  proof -
    have "t' < 32000" using that lim by simp
    from b(1) [OF that(1) this] st that(2) show ?thesis
      by (simp add: stage_rank_def)
  qed
  have edge: "progress (update (since_interaction t s)) = Fin 0 \<longleftrightarrow>
              stage (update (since_interaction t s)) \<noteq> stage (update (since_interaction (t - 1) s))"
    if "0 < t"
  proof -
    have "0 \<le> t - 1" "t - 1 < 32000" using that lim by simp_all
    from b(1) [OF this] st pr that lim show ?thesis
      by (auto split: if_splits)
  qed
  have rng: "\<exists>p. progress (update (since_interaction t s)) = Fin p \<and> 0 \<le> p \<and> p \<le> 1"
    using pr assms(4) lim by (auto split: if_splits)
  show ?thesis
    unfolding Let_def
    using st pr mono edge rng
    by (simp add: CONFIG_timings_standard_def)
qed

theorem update_standard_buckets_witness:
  "\<not> permanentPirateMode standard_page \<and> \<not> isTransitioning standard_page
    \<and> \<not> isDead standard_page \<and> (0::int) \<le> 24000
    \<and> of_int 24000 < healthy CONFIG_timings_standard + panic CONFIG_timings_standard
                    + decay CONFIG_timings_standard + death CONFIG_timings_standard
    \<and> stage (update (since_interaction 24000 standard_page)) = Some ''panic''
    \<and> progress (update (since_interaction 24000 standard_page)) = Fin 0
    \<and> stage (update (since_interaction 24000 standard_page))
        \<noteq> stage (update (since_interaction 23999 standard_page))"
  using update_standard_buckets [of standard_page 24000]
  by (auto simp add: standard_page_def permanent_page_def subscribe_def initial_def
      CONFIG_timings_standard_def Let_def)

subsection \<open>The timer discipline\<close>

text \<open>
  Every operation other than \<open>start\<close> keeps the timer discipline, and so does
  \<open>start\<close> in permanent mode or when no interval is active.
\<close>

lemma one_timer_cases:
  "one_timer s \<longleftrightarrow>
     (intervals s = [] \<and> timer s = None) \<or> (\<exists>i h. intervals s = [(i, h)] \<and> timer s = Some i \<and> 0 < i)"
  by (auto simp add: one_timer_def split: list.splits)

lemma one_timer_notify [simp]: "one_timer (notify s) = one_timer s"
  by (simp add: one_timer_cases notify_def)

lemma one_timer_startTransition: "one_timer s \<Longrightarrow> one_timer (startTransition toStage d cb s)"
  by (auto simp add: one_timer_cases startTransition_def setInterval_def clearInterval_def
      truthy_def Let_def)

lemma one_timer_setTimeout: "one_timer (setTimeout f d s) = one_timer s"
  by (simp add: one_timer_cases setTimeout_def Let_def)

lemma one_timer_beginDeath: "one_timer s \<Longrightarrow> one_timer (beginDeath s)"
  by (simp add: beginDeath_def one_timer_startTransition one_timer_setTimeout Let_def)

lemma one_timer_run_callback: "one_timer (run_callback cb s) = one_timer s"
  by (simp add: one_timer_cases run_callback_def split: callback.splits)

lemma one_timer_updateTransition: "one_timer s \<Longrightarrow> one_timer (updateTransition s)"
  by (auto simp add: one_timer_cases updateTransition_def notify_def clearInterval_def
      run_callback_def Let_def split: option.splits callback.splits)

lemma one_timer_update:
  assumes "one_timer s"
  shows "one_timer (update s)"
proof -
  have a: "one_timer (s\<lparr>stage := x, progress := y\<rparr>)" for x y
    using assms by (simp add: one_timer_cases)
  show ?thesis
    by (simp add: update_def Let_def one_timer_updateTransition one_timer_beginDeath assms a)
qed

lemma one_timer_apply_op:
  assumes "one_timer s" and "op \<noteq> Start"
  shows "one_timer (apply_op op s)"
proof (cases op)
  case (FireInterval i)
  then show ?thesis using assms(1)
    by (simp add: fire_interval_def one_timer_update one_timer_updateTransition
        split: option.splits handler.splits)
next
  case (FireTimeout i)
  then show ?thesis using assms(1)
    by (simp add: fire_timeout_def run_timeout_def one_timer_cases Let_def
        split: option.splits timeout_fn.splits)
next
  case (EnterPirateMode f)
  then show ?thesis using assms(1)
    by (simp add: enterPirateMode_def one_timer_setTimeout one_timer_startTransition Let_def)
next
  case Pause
  then show ?thesis using assms(1)
    by (auto simp add: one_timer_cases pause_def clearInterval_def truthy_def)
next
  case Resume
  then show ?thesis using assms(1)
    by (auto simp add: one_timer_cases resume_def setInterval_def truthy_def Let_def)
next
  case Destroy
  then show ?thesis using assms(1)
    by (auto simp add: one_timer_cases destroy_def clearInterval_def truthy_def Let_def)
qed (use assms in \<open>simp_all add: one_timer_startTransition one_timer_beginDeath\<close>,
     simp_all add: one_timer_cases reset_def subscribe_def setStage_def notify_def elapse_def
       split: option.splits)

lemma one_timer_start:
  assumes "one_timer s" and "permanentPirateMode s \<or> intervals s = []"
  shows "one_timer (start s)"
  using assms
  by (auto simp add: one_timer_cases start_def notify_def setInterval_def Let_def)

subsection \<open>Timed transitions\<close>

lemma map_of_filter_fst_neq: "map_of (filter (\<lambda>e. fst e \<noteq> i) xs) i = None"
  by (induction xs) auto

lemma map_of_fresh: "\<forall>e \<in> set xs. fst e \<noteq> i \<Longrightarrow> map_of xs i = None"
  by (induction xs) auto

lemma fresh_handlesD: "fresh_handles s \<Longrightarrow> e \<in> set (intervals s) \<Longrightarrow> fst e \<le> lastHandle s"
  by (simp add: fresh_handles_def list_all_iff)

lemma startTransition_active:
  assumes "fresh_handles s0"
  shows "transition_active (Suc (lastHandle s0)) toStage d (clock s0) cb
           (startTransition toStage d cb s0)"
proof -
  have a: "map_of (intervals s0) (Suc (lastHandle s0)) = None"
    using fresh_handlesD [OF assms] by (intro map_of_fresh) fastforce
  have b: "map_of (filter (\<lambda>e. fst e \<noteq> j) (intervals s0)) (Suc (lastHandle s0)) = None" for j
    using fresh_handlesD [OF assms] by (intro map_of_fresh) fastforce
  show ?thesis
    using a b
    by (simp add: transition_active_def startTransition_def setInterval_def clearInterval_def
        Let_def map_add_def split: option.splits)
qed

lemma startTransition_clock [simp]: "clock (startTransition toStage d cb s0) = clock s0"
  by (simp add: startTransition_def setInterval_def clearInterval_def Let_def split: option.splits)

lemma tick_running:
  assumes "transition_active i toStage d t0 cb s" and "0 < d" and "of_int (clock s - t0) < d"
  shows "fire_interval i s =
           notify (s\<lparr>progress := Fin (min (of_int (clock s - t0) / d) 1), stage := Some toStage\<rparr>)"
    and "transition_active i toStage d t0 cb (fire_interval i s)"
  using assms
  by (simp_all add: transition_active_def fire_interval_def updateTransition_def js_div_def
      num_of_null_def notify_def Let_def)

lemma tick_complete:
  assumes "transition_active i toStage d t0 cb s" and "0 < d" and "d \<le> of_int (clock s - t0)"
  shows "fire_interval i s =
           finish_transition i cb (notify (s\<lparr>progress := Fin 1, stage := Some toStage\<rparr>))"
    and "transition_done i toStage (fire_interval i s)"
proof -
  have q: "min (of_int (clock s - t0) / d) 1 = 1"
    using assms(2,3) by (simp add: min_def)
  show "fire_interval i s =
           finish_transition i cb (notify (s\<lparr>progress := Fin 1, stage := Some toStage\<rparr>))"
    using assms q
    by (simp add: transition_active_def fire_interval_def updateTransition_def js_div_def
      num_of_null_def notify_def Let_def finish_transition_def clearInterval_def
      split: option.splits)
  then show "transition_done i toStage (fire_interval i s)"
    by (simp add: finish_transition_def transition_done_def clearInterval_def notify_def
        run_callback_def map_of_filter_fst_neq Let_def split: option.splits callback.splits)
qed

lemma tick_done:
  assumes "transition_done i toStage s"
  shows "fire_interval i (elapse ms s) = elapse ms s"
    and "transition_done i toStage (elapse ms s)"
  using assms by (simp_all add: transition_done_def fire_interval_def elapse_def)

lemma elapse_active:
  "transition_active i toStage d t0 cb (elapse ms s) = transition_active i toStage d t0 cb s"
  by (simp add: transition_active_def elapse_def)

lemma elapse_clock [simp]: "clock (elapse ms s) = clock s + int ms"
  by (simp add: elapse_def)

lemma fire_clock [simp]: "clock (fire_interval i s) = clock s"
  by (simp add: fire_interval_def update_def updateTransition_def notify_def
      clearInterval_def run_callback_def beginDeath_def startTransition_def setInterval_def
      setTimeout_def Let_def
      split: option.splits handler.splits callback.splits)

lemma run_ticks_snoc:
  "run_ticks i (pre @ [ms]) s = fire_interval i (elapse ms (run_ticks i pre s))"
  by (simp add: run_ticks_def)

lemma run_ticks_clock [simp]: "clock (run_ticks i dts s) = clock s + int (sum_list dts)"
  by (induction dts rule: rev_induct) (simp_all add: run_ticks_snoc, simp add: run_ticks_def)

lemma run_ticks_inv:
  assumes "transition_active i toStage d (clock s) cb s" and "0 < d"
  shows "(if of_nat (sum_list dts) < d
          then transition_active i toStage d (clock s) cb (run_ticks i dts s)
          else transition_done i toStage (run_ticks i dts s))
       \<and> (dts \<noteq> [] \<longrightarrow> stage (run_ticks i dts s) = Some toStage
                      \<and> progress (run_ticks i dts s) = Fin (min (of_nat (sum_list dts) / d) 1))"
proof (induction dts rule: rev_induct)
  case Nil
  then show ?case using assms by (simp add: run_ticks_def)
next
  case (snoc ms pre)
  let ?b = "run_ticks i pre s"
  let ?n = "elapse ms ?b"
  have ck: "clock ?n - clock s = int (sum_list pre + ms)" by simp
  show ?case
  proof (cases "of_nat (sum_list pre) < d")
    case True
    then have act: "transition_active i toStage d (clock s) cb ?n"
      using snoc by (simp add: elapse_active)
    show ?thesis
    proof (cases "of_nat (sum_list pre + ms) < d")
      case True
      then have lt: "of_int (clock ?n - clock s) < d" unfolding ck by simp
      from tick_running [OF act assms(2) lt] True ck show ?thesis
        by (simp add: run_ticks_snoc)
    next
      case False
      then have ge: "d \<le> of_int (clock ?n - clock s)" unfolding ck by simp
      then have q: "min (of_nat (sum_list pre + ms) / d) 1 = 1"
        using assms(2) False by (simp add: min_def)
      from tick_complete [OF act assms(2) ge] False q show ?thesis
        by (simp add: run_ticks_snoc transition_done_def)
    qed
  next
    case False
    then have dn: "transition_done i toStage ?b" using snoc by simp
    have ge: "\<not> of_nat (sum_list pre + ms) < d" using False by simp
    then have q: "min (of_nat (sum_list pre + ms) / d) 1 = 1"
      using assms(2) by (simp add: min_def)
    from tick_done [OF dn, of ms] ge q show ?thesis
      by (simp add: run_ticks_snoc transition_done_def elapse_def)
  qed
qed

text \<open>
  C2. A transition is started with \<open>startTransition toStage d cb\<close>, \<open>0 < d\<close>, and its
  interval \<open>i\<close> then fires after the delays \<open>pre\<close> and once more after \<open>ms\<close>
  milliseconds; \<open>a\<close> and \<open>a'\<close> are the milliseconds since the start before and at
  this last firing. At the firing the stage is \<open>toStage\<close> and the progress is
  \<open>min (a' / d) 1\<close>, at most 1 and not below the progress of the firing before.
  While \<open>a' < d\<close> the firing is an update followed by \<open>notify\<close> and nothing else.
  At the firing that reaches \<open>d\<close> the progress is 1, the subscribers are notified, the
  interval and \<open>timer\<close> are cleared, \<open>isTransitioning\<close> is reset, the callback slot is
  emptied and \<open>cb\<close> runs. Once \<open>d \<le> a\<close> the interval is gone and a firing changes
  nothing: the callback has run at exactly one firing.
\<close>

theorem transition_ticks:
  assumes "0 < d" and "fresh_handles s0"
  shows "let s1 = startTransition toStage d cb s0; i = Suc (lastHandle s0);
             before = run_ticks i pre s1; now = elapse ms before; after = fire_interval i now;
             a = of_nat (sum_list pre); a' = of_nat (sum_list pre + ms);
             p = min (a' / d) 1;
             n = notify (now\<lparr>progress := Fin p, stage := Some toStage\<rparr>);
             f = (clearInterval (Some i) n)
                   \<lparr>timer := None, isTransitioning := False, transitionCallback := None\<rparr>
         in isTransitioning s1 \<and> timer s1 = Some i \<and> transitionStartTime s1 = Some (clock s0)
          \<and> transitionCallback s1 = cb
          \<and> of_int (clock now - clock s0) = a'
          \<and> stage after = Some toStage \<and> progress after = Fin p \<and> p \<le> 1
          \<and> (pre \<noteq> [] \<longrightarrow> progress before = Fin (min (a / d) 1) \<and> min (a / d) 1 \<le> p)
          \<and> (a < d \<and> a' < d \<longrightarrow>
                after = n \<and> isTransitioning after \<and> timer after = Some i
                \<and> transitionCallback after = cb)
          \<and> (a < d \<and> d \<le> a' \<longrightarrow>
                p = 1 \<and> after = (case cb of None \<Rightarrow> f | Some c \<Rightarrow> run_callback c f)
                \<and> timer after = None \<and> \<not> isTransitioning after
                \<and> map_of (intervals after) i = None \<and> transitionCallback after = None)
          \<and> (d \<le> a \<longrightarrow> after = now \<and> timer after = None \<and> \<not> isTransitioning after)"
proof -
  define s1 where "s1 = startTransition toStage d cb s0"
  define i where "i = Suc (lastHandle s0)"
  define before where "before = run_ticks i pre s1"
  define now where "now = elapse ms before"
  define a :: rat where "a = of_nat (sum_list pre)"
  define a' :: rat where "a' = of_nat (sum_list pre + ms)"
  define p where "p = min (a' / d) 1"
  have act1: "transition_active i toStage d (clock s1) cb s1"
    using startTransition_active [OF assms(2), of toStage d cb] by (simp add: s1_def i_def)
  have ck1: "clock s1 = clock s0" by (simp add: s1_def)
  have ck: "of_int (clock now - clock s0) = a'"
    by (simp add: now_def before_def a'_def ck1)
  have ck': "clock now - clock s1 = int (sum_list pre + ms)"
    by (simp add: now_def before_def)
  have aa: "a \<le> a'" by (simp add: a_def a'_def)
  have mono: "min (a / d) 1 \<le> p"
    using aa assms(1) by (simp add: p_def min_def divide_le_cancel field_simps)
  note inv = run_ticks_inv [OF act1 assms(1)]
  have inv_snoc: "stage (fire_interval i now) = Some toStage
                \<and> progress (fire_interval i now) = Fin p"
    using inv [of "pre @ [ms]"] by (simp add: run_ticks_snoc now_def before_def p_def a'_def)
  have prev: "progress before = Fin (min (a / d) 1)" if "pre \<noteq> []"
    using inv [of pre] that by (simp add: before_def a_def)
  have running: "fire_interval i now = notify (now\<lparr>progress := Fin p, stage := Some toStage\<rparr>)
       \<and> isTransitioning (fire_interval i now) \<and> timer (fire_interval i now) = Some i
       \<and> transitionCallback (fire_interval i now) = cb"
    if "a < d" "a' < d"
  proof -
    have act: "transition_active i toStage d (clock s1) cb now"
      using inv [of pre] that(1) by (simp add: a_def now_def before_def elapse_active)
    have eq: "rat_of_int (clock now - clock s1) = a'" unfolding ck' a'_def by simp
    have lt: "of_int (clock now - clock s1) < d" using that(2) unfolding eq .
    from tick_running [OF act assms(1) lt, unfolded eq] show ?thesis
      by (simp add: transition_active_def p_def)
  qed
  have completing: "p = 1
       \<and> fire_interval i now =
           (case cb of
              None \<Rightarrow> (clearInterval (Some i) (notify (now\<lparr>progress := Fin p, stage := Some toStage\<rparr>)))
                   \<lparr>timer := None, isTransitioning := False, transitionCallback := None\<rparr>
            | Some c \<Rightarrow> run_callback c
                  ((clearInterval (Some i) (notify (now\<lparr>progress := Fin p, stage := Some toStage\<rparr>)))
                   \<lparr>timer := None, isTransitioning := False, transitionCallback := None\<rparr>))
       \<and> timer (fire_interval i now) = None \<and> \<not> isTransitioning (fire_interval i now)
       \<and> map_of (intervals (fire_interval i now)) i = None
       \<and> transitionCallback (fire_interval i now) = None"
    if "a < d" "d \<le> a'"
  proof -
    have act: "transition_active i toStage d (clock s1) cb now"
      using inv [of pre] that(1) by (simp add: a_def now_def before_def elapse_active)
    have ge: "d \<le> of_int (clock now - clock s1)" using that(2) unfolding ck' a'_def by simp
    have pp: "p = 1"
      using that(2) assms(1) unfolding p_def by (simp add: min_def)
    from tick_complete [OF act assms(1) ge] show ?thesis
      unfolding pp by (simp add: transition_done_def finish_transition_def Let_def)
  qed
  have finished: "fire_interval i now = now \<and> timer (fire_interval i now) = None
       \<and> \<not> isTransitioning (fire_interval i now)"
    if "d \<le> a"
  proof -
    have dn: "transition_done i toStage before"
      using inv [of pre] that by (simp add: a_def before_def)
    from tick_done [OF dn, of ms] show ?thesis
      by (simp add: now_def transition_done_def)
  qed
  have p1: "p \<le> 1" by (simp add: p_def)
  have s1_facts: "isTransitioning s1 \<and> timer s1 = Some i \<and> transitionStartTime s1 = Some (clock s0)
          \<and> transitionCallback s1 = cb"
    using act1 by (simp add: transition_active_def ck1)
  show ?thesis
    unfolding Let_def s1_def [symmetric] i_def [symmetric] before_def [symmetric]
      now_def [symmetric] a_def [symmetric] a'_def [symmetric] p_def [symmetric]
    using s1_facts ck inv_snoc p1 prev mono running completing finished
    by blast
qed

theorem transition_ticks_witness:
  "(0::rat) < 7000 \<and> fresh_handles standard_page
   \<and> progress (run_ticks 1 [3000]
        (startTransition ''pirate'' 7000 (Some (External (\<lambda>w. w + 100))) standard_page))
       = Fin (3 / 7)
   \<and> world (run_ticks 1 [3000]
        (startTransition ''pirate'' 7000 (Some (External (\<lambda>w. w + 100))) standard_page)) = 1
   \<and> stage (run_ticks 1 [3000, 4000]
        (startTransition ''pirate'' 7000 (Some (External (\<lambda>w. w + 100))) standard_page))
       = Some ''pirate''
   \<and> progress (run_ticks 1 [3000, 4000]
        (startTransition ''pirate'' 7000 (Some (External (\<lambda>w. w + 100))) standard_page)) = Fin 1
   \<and> timer (run_ticks 1 [3000, 4000]
        (startTransition ''pirate'' 7000 (Some (External (\<lambda>w. w + 100))) standard_page)) = None
   \<and> world (run_ticks 1 [3000, 4000]
        (startTransition ''pirate'' 7000 (Some (External (\<lambda>w. w + 100))) standard_page)) = 102
   \<and> world (run_ticks 1 [3000, 4000, 100]
        (startTransition ''pirate'' 7000 (Some (External (\<lambda>w. w + 100))) standard_page)) = 102"
proof -
  have h1: "(0::rat) < 7000" by simp
  have h2: "fresh_handles standard_page"
    by (simp add: fresh_handles_def standard_page_def permanent_page_def subscribe_def initial_def)
  note t1 = transition_ticks [OF h1 h2, of "''pirate''" "Some (External (\<lambda>w. w + 100))" "[]" 3000]
  note t2 = transition_ticks [OF h1 h2, of "''pirate''" "Some (External (\<lambda>w. w + 100))" "[3000]" 4000]
  note t3 = transition_ticks [OF h1 h2, of "''pirate''" "Some (External (\<lambda>w. w + 100))" "[3000, 4000]" 100]
  show ?thesis
    using h1 h2 t1 t2 t3
    by (simp add: Let_def run_ticks_def standard_page_def permanent_page_def subscribe_def
        initial_def notify_def elapse_def clearInterval_def
        run_callback_def startTransition_def setInterval_def truthy_def)
qed

subsection \<open>Death\<close>

text \<open>
  C3, as the code has it. \<open>beginDeath\<close> returns at once only when \<open>isDead\<close> is set,
  which happens when the death transition completes. Called while \<open>isDead\<close> is not
  set, it schedules one timeout at three quarters of the death duration and starts a
  death transition: the interval kept in \<open>timer\<close> is cancelled, a new
  transition interval is installed and stored in \<open>timer\<close>, the start time is the
  current time and the completion callback is stored, replacing any pending one. So a
  second call during the transition leaves one interval active and one callback pending.
\<close>

theorem beginDeath_guard:
  "(isDead s \<longrightarrow> beginDeath s = s)
   \<and> (\<not> isDead s \<longrightarrow>
        timeouts (beginDeath s)
          = timeouts s @ [(Suc (lastHandle s), 3 / 4 * death CONFIG_timings_standard, DeathGasp)]
      \<and> intervals (beginDeath s)
          = (if truthy (timer s) then filter (\<lambda>e. Some (fst e) \<noteq> timer s) (intervals s)
             else intervals s) @ [(Suc (Suc (lastHandle s)), TransitionTick)]
      \<and> timer (beginDeath s) = Some (Suc (Suc (lastHandle s)))
      \<and> isTransitioning (beginDeath s) \<and> \<not> isDead (beginDeath s)
      \<and> transitionStartTime (beginDeath s) = Some (clock s)
      \<and> transitionDuration (beginDeath s) = Some (death CONFIG_timings_standard)
      \<and> transitionToStage (beginDeath s) = Some ''death''
      \<and> transitionCallback (beginDeath s) = Some DeathDone
      \<and> previousStage (beginDeath s) = stage s)
   \<and> (one_timer s \<longrightarrow> one_timer (beginDeath s))"
  using one_timer_beginDeath [of s]
  by (auto simp add: beginDeath_def startTransition_def setTimeout_def setInterval_def
      clearInterval_def truthy_def js_or_def CONFIG_timings_standard_def Let_def
      split: option.splits)

theorem beginDeath_guard_witness:
  "\<not> isDead (start standard_page)
   \<and> timeouts (beginDeath (start standard_page)) = [(2, 1500, DeathGasp)]
   \<and> intervals (beginDeath (start standard_page)) = [(3, TransitionTick)]
   \<and> one_timer (beginDeath (start standard_page))
   \<and> intervals (beginDeath (elapse 500 (beginDeath (start standard_page)))) = [(5, TransitionTick)]
   \<and> isDead (run_ticks 3 [2000] (beginDeath (start standard_page)))
   \<and> beginDeath (run_ticks 3 [2000] (beginDeath (start standard_page)))
       = run_ticks 3 [2000] (beginDeath (start standard_page))"
  using beginDeath_guard [of "start standard_page"]
    beginDeath_guard [of "run_ticks 3 [2000] (beginDeath (start standard_page))"]
  by (simp add: one_timer_def standard_page_def permanent_page_def subscribe_def initial_def start_def
      notify_def setInterval_def truthy_def CONFIG_timings_standard_def Let_def
      run_ticks_def elapse_def fire_interval_def updateTransition_def beginDeath_def
      startTransition_def setTimeout_def clearInterval_def js_or_def js_div_def num_of_null_def
      run_callback_def)

text \<open>
  A second \<open>beginDeath\<close> 500 ms into the death transition is not ignored: a second
  timeout is pending and a second transition has started (new interval, new start time).
\<close>

theorem beginDeath_twice_counterexample:
  "\<not> isDead (beginDeath (start standard_page))
   \<and> isTransitioning (beginDeath (start standard_page))
   \<and> timeouts (beginDeath (start standard_page)) = [(2, 1500, DeathGasp)]
   \<and> timer (beginDeath (start standard_page)) = Some 3
   \<and> transitionStartTime (beginDeath (start standard_page)) = Some 5000
   \<and> timeouts (beginDeath (elapse 500 (beginDeath (start standard_page))))
       = [(2, 1500, DeathGasp), (4, 1500, DeathGasp)]
   \<and> timer (beginDeath (elapse 500 (beginDeath (start standard_page)))) = Some 5
   \<and> transitionStartTime (beginDeath (elapse 500 (beginDeath (start standard_page)))) = Some 5500"
  by (simp add: standard_page_def permanent_page_def subscribe_def initial_def start_def
      notify_def setInterval_def truthy_def CONFIG_timings_standard_def Let_def
      elapse_def beginDeath_def
      startTransition_def setTimeout_def clearInterval_def js_or_def)


subsection \<open>Timers\<close>

text \<open>
  C4 on the code: in standard mode a second \<open>start\<close> installs a second tick interval
  and does not cancel the first. Both stay active; \<open>timer\<close> holds only the second, so
  \<open>pause\<close> and \<open>destroy\<close> leave the first one running.
\<close>

theorem start_twice_leaks_interval:
  "\<not> permanentPirateMode standard_page
   \<and> intervals (start standard_page) = [(1, Tick)]
   \<and> intervals (start (start standard_page)) = [(1, Tick), (2, Tick)]
   \<and> timer (start (start standard_page)) = Some 2
   \<and> intervals (pause (start (start standard_page))) = [(1, Tick)]
   \<and> timer (pause (start (start standard_page))) = None
   \<and> intervals (destroy (start (start standard_page))) = [(1, Tick)]"
  by (simp add: standard_page_def permanent_page_def subscribe_def initial_def start_def
      notify_def setInterval_def truthy_def Let_def pause_def destroy_def clearInterval_def)

subsection \<open>Permanent pirate mode\<close>

text \<open>
  C5. In permanent pirate mode \<open>start\<close> is one \<open>notify\<close> on the state with stage
  \<open>pirate\<close> and progress 1: every listener is called once with these values. No interval
  or timeout is created and \<open>timer\<close> is left as it was. In that mode \<open>reset\<close> returns
  the state unchanged.
\<close>

theorem start_permanent:
  assumes "permanentPirateMode s"
  shows "start s = notify (s\<lparr>isDead := False, isTransitioning := False,
                             lastInteraction := Some (clock s),
                             stage := Some ''pirate'', progress := Fin 1\<rparr>)
       \<and> stage (start s) = Some ''pirate'' \<and> progress (start s) = Fin 1
       \<and> world (start s) = forEach_listener (listeners s) (Some ''pirate'') (Fin 1) (world s)
       \<and> intervals (start s) = intervals s \<and> timeouts (start s) = timeouts s
       \<and> lastHandle (start s) = lastHandle s \<and> timer (start s) = timer s
       \<and> reset s = s"
  using assms by (simp add: start_def notify_def reset_def Let_def)

theorem start_permanent_witness:
  "permanentPirateMode permanent_page
   \<and> stage (start permanent_page) = Some ''pirate'' \<and> progress (start permanent_page) = Fin 1
   \<and> world (start permanent_page) = 1 \<and> intervals (start permanent_page) = []
   \<and> timer (start permanent_page) = None
   \<and> reset (elapse 250 (start permanent_page)) = elapse 250 (start permanent_page)"
  using start_permanent [of permanent_page] start_permanent [of "elapse 250 (start permanent_page)"]
  by (simp add: permanent_page_def subscribe_def initial_def start_def notify_def elapse_def Let_def)

subsection \<open>Broadcast\<close>

lemma forEach_listener_fold:
  "forEach_listener ls st p w = fold (\<lambda>cb w'. left_by (cb st p w')) ls w"
  by (induction ls arbitrary: w) (auto simp: left_by_def split: outcome.splits)

lemma forEach_recording:
  "forEach_listener (map recording (enumerate n ls)) st p (w, l0) =
     (forEach_listener ls st p w, l0 @ map (\<lambda>kf. (fst kf, st, p)) (enumerate n ls))"
  by (induction ls arbitrary: n w l0) (simp_all add: recording_def split: outcome.splits)

text \<open>
  C6. \<open>notify\<close> changes nothing of the controller but the subscribers' world; that world
  is what results from calling every listener of the list, first to last, with the
  current stage and progress, each on the world the previous one left, whether that one
  returned or threw. With recording listeners the log of one broadcast has one call per
  listener, in list order, all with the same stage and progress. \<open>subscribe\<close> appends,
  so list order is insertion order.
\<close>

theorem notify_broadcast:
  "(notify s)\<lparr>world := world s\<rparr> = s
   \<and> world (notify s) = fold (\<lambda>cb w. left_by (cb (stage s) (progress s) w)) (listeners s) (world s)
   \<and> snd (forEach_listener (map recording (enumerate 0 ls)) st p (w, []))
       = map (\<lambda>kf. (fst kf, st, p)) (enumerate 0 ls)
   \<and> listeners (subscribe (Some f) s) = listeners s @ [f]"
  using forEach_recording [of 0 ls st p w "[]"]
  by (simp add: notify_def forEach_listener_fold subscribe_def)


theorem notify_broadcast_witness:
  "world (notify permanent_page) = 1
   \<and> snd (forEach_listener (map recording (enumerate 0 (listeners permanent_page)))
            (Some ''pirate'') (Fin 0) (0, []))
       = [(0, Some ''pirate'', Fin 0), (1, Some ''pirate'', Fin 0)]"
  using notify_broadcast [of permanent_page "listeners permanent_page" "Some ''pirate''" "Fin 0" 0]
  by (simp add: permanent_page_def subscribe_def initial_def left_by_def)

subsection \<open>Pirate mode entry\<close>

lemma run_ticks_dead:
  assumes "transition_active i toStage d (clock s) (Some cb) s" and "0 < d"
    and "cb = DeathDone \<or> cb = PirateDone"
  shows "d \<le> of_nat (sum_list dts) \<Longrightarrow> isDead (run_ticks i dts s)"
proof (induction dts rule: rev_induct)
  case Nil
  then show ?case using assms(2) by simp
next
  case (snoc ms pre)
  let ?n = "elapse ms (run_ticks i pre s)"
  show ?case
  proof (cases "of_nat (sum_list pre) < d")
    case True
    then have act: "transition_active i toStage d (clock s) (Some cb) ?n"
      using run_ticks_inv [OF assms(1,2), of pre] by (simp add: elapse_active)
    have ge: "d \<le> of_int (clock ?n - clock s)" using snoc.prems by simp
    from tick_complete(1) [OF act assms(2) ge] assms(3) show ?thesis
      by (auto simp add: run_ticks_snoc finish_transition_def run_callback_def Let_def)
  next
    case False
    then have "isDead (run_ticks i pre s)" using snoc.IH by simp
    moreover have "transition_done i toStage (run_ticks i pre s)"
      using run_ticks_inv [OF assms(1,2), of pre] False by simp
    ultimately show ?thesis
      using tick_done(1) [of i toStage "run_ticks i pre s" ms]
      by (simp add: run_ticks_snoc elapse_def)
  qed
qed

lemma enterPirateMode_active:
  assumes "fresh_handles s0"
  shows "transition_active (Suc (lastHandle s0)) ''pirate'' 7000 (clock s0) (Some PirateDone)
           (enterPirateMode f s0)"
  using startTransition_active [OF assms, of "''pirate''" 7000 "Some PirateDone"]
  by (simp add: enterPirateMode_def setTimeout_def transition_active_def js_or_def
      CONFIG_timings_pirate_def Let_def)

lemma enterPirateMode_clock [simp]: "clock (enterPirateMode f s0) = clock s0"
  by (simp add: enterPirateMode_def setTimeout_def Let_def)

lemma isDead_apply_op:
  assumes "isDead s" and "op \<noteq> Start" and "op \<noteq> Destroy"
  shows "isDead (apply_op op s)"
proof (cases op)
  case (FireInterval i)
  then show ?thesis using assms(1)
    by (simp add: fire_interval_def update_def updateTransition_def notify_def clearInterval_def
        run_callback_def Let_def split: option.splits handler.splits callback.splits)
next
  case (FireTimeout i)
  then show ?thesis using assms(1)
    by (simp add: fire_timeout_def run_timeout_def Let_def
        split: option.splits timeout_fn.splits)
next
  case (StartTransition toStage d cb)
  then show ?thesis using assms(1)
    by (simp add: startTransition_def setInterval_def clearInterval_def Let_def
        split: option.splits)
next
  case (EnterPirateMode f)
  then show ?thesis using assms(1)
    by (simp add: enterPirateMode_def setTimeout_def startTransition_def setInterval_def
        clearInterval_def Let_def split: option.splits)
qed (use assms in \<open>simp_all add: reset_def beginDeath_def subscribe_def setStage_def notify_def
      pause_def resume_def elapse_def clearInterval_def split: option.splits\<close>)

lemma isDead_run_ops:
  "isDead s \<Longrightarrow> Start \<notin> set ops \<Longrightarrow> Destroy \<notin> set ops \<Longrightarrow> isDead (run_ops ops s)"
proof (induction ops arbitrary: s)
  case Nil
  then show ?case by (simp add: run_ops_def)
next
  case (Cons op ops)
  have "isDead (apply_op op s)"
    using Cons.prems by (intro isDead_apply_op) auto
  then have "isDead (run_ops ops (apply_op op s))"
    using Cons.prems by (intro Cons.IH) auto
  then show ?case by (simp add: run_ops_def)
qed

text \<open>
  C10, as the code has it. Once the interval of the transition started by
  \<open>enterPirateMode\<close> has fired at or after 7000 ms, \<open>isDead\<close> is set although no
  death transition took place. The flag survives every operation except \<open>start\<close> and
  \<open>destroy\<close>, and while it is set \<open>reset\<close> and \<open>resume\<close> return the state
  unchanged. \<open>destroy\<close> clears the flag, and so does \<open>start\<close>.
\<close>

theorem pirate_completion_sets_isDead:
  assumes "fresh_handles s0" and "7000 \<le> sum_list dts"
    and "Start \<notin> set ops" and "Destroy \<notin> set ops"
  shows "isDead (run_ticks (Suc (lastHandle s0)) dts (enterPirateMode f s0))
       \<and> isDead (run_ops ops (run_ticks (Suc (lastHandle s0)) dts (enterPirateMode f s0)))
       \<and> reset (run_ops ops (run_ticks (Suc (lastHandle s0)) dts (enterPirateMode f s0)))
           = run_ops ops (run_ticks (Suc (lastHandle s0)) dts (enterPirateMode f s0))
       \<and> resume (run_ops ops (run_ticks (Suc (lastHandle s0)) dts (enterPirateMode f s0)))
           = run_ops ops (run_ticks (Suc (lastHandle s0)) dts (enterPirateMode f s0))
       \<and> \<not> isDead (destroy (run_ops ops (run_ticks (Suc (lastHandle s0)) dts (enterPirateMode f s0))))
       \<and> \<not> isDead (start (run_ops ops (run_ticks (Suc (lastHandle s0)) dts (enterPirateMode f s0))))"
proof -
  let ?done = "run_ticks (Suc (lastHandle s0)) dts (enterPirateMode f s0)"
  have act: "transition_active (Suc (lastHandle s0)) ''pirate'' 7000 (clock (enterPirateMode f s0))
               (Some PirateDone) (enterPirateMode f s0)"
    using enterPirateMode_active [OF assms(1), of f] by simp
  have "(7000::rat) \<le> of_nat (sum_list dts)"
    using assms(2) by (metis of_nat_le_iff of_nat_numeral)
  then have dead: "isDead ?done"
    using run_ticks_dead [OF act, of dts] by simp
  then have dead': "isDead (run_ops ops ?done)"
    using assms(3,4) by (rule isDead_run_ops)
  have "\<not> isDead (destroy t)" "\<not> isDead (start t)" for t :: "'a decay_core"
    by (simp_all add: destroy_def start_def notify_def setInterval_def Let_def)
  with dead dead' show ?thesis
    by (simp add: reset_def resume_def)
qed

theorem pirate_completion_sets_isDead_witness:
  "fresh_handles (start standard_page) \<and> (7000::nat) \<le> sum_list [3000, 4000]
   \<and> Start \<notin> set [Elapse 100, Reset, Pause, Resume :: nat op]
   \<and> Destroy \<notin> set [Elapse 100, Reset, Pause, Resume :: nat op]
   \<and> isDead pirate_entered
   \<and> isDead (run_ops [Elapse 100, Reset, Pause, Resume] pirate_entered)
   \<and> reset (run_ops [Elapse 100, Reset, Pause, Resume] pirate_entered)
       = run_ops [Elapse 100, Reset, Pause, Resume] pirate_entered
   \<and> \<not> isDead (destroy (run_ops [Elapse 100, Reset, Pause, Resume] pirate_entered))"
proof -
  have h1: "fresh_handles (start standard_page)"
    by (simp add: fresh_handles_def standard_page_def permanent_page_def subscribe_def
        initial_def start_def notify_def setInterval_def Let_def)
  have h2: "(7000::nat) \<le> sum_list [3000, 4000]" by simp
  have h3: "Start \<notin> set [Elapse 100, Reset, Pause, Resume :: nat op]" by simp
  have h4: "Destroy \<notin> set [Elapse 100, Reset, Pause, Resume :: nat op]" by simp
  have l: "Suc (lastHandle (start standard_page)) = 2"
    by (simp add: standard_page_def permanent_page_def subscribe_def
        initial_def start_def notify_def setInterval_def Let_def)
  show ?thesis
    using h1 h2 h3 h4 pirate_completion_sets_isDead [OF h1 h2 h3 h4, of None]
    unfolding l pirate_entered_def by simp
qed

text \<open>
  After pirate mode has been entered, \<open>start\<close> followed 100 ms later by \<open>reset\<close>
  moves \<open>lastInteraction\<close>: \<open>reset\<close> works again and \<open>destroy\<close> was never called.
\<close>

theorem pirate_then_start_counterexample:
  "isDead pirate_entered
   \<and> \<not> isDead (start pirate_entered)
   \<and> lastInteraction (elapse 100 (start pirate_entered)) = Some 12000
   \<and> lastInteraction (reset (elapse 100 (start pirate_entered))) = Some 12100"
  by (simp add: pirate_entered_def standard_page_def permanent_page_def subscribe_def initial_def
      start_def notify_def setInterval_def truthy_def CONFIG_timings_pirate_def Let_def
      run_ticks_def elapse_def fire_interval_def updateTransition_def enterPirateMode_def
      startTransition_def setTimeout_def clearInterval_def js_or_def js_div_def num_of_null_def
      run_callback_def reset_def)

section \<open>Properties of the beam scanner\<close>

text \<open>
  C8 on the code. The table gives the death stage the speed 0, but \<open>speeds[stage] || 8\<close>
  turns that 0 into 8: after \<open>syncToDecay\<close> with the stage \<open>death\<close> the current
  speed is always 8. On a beam that still runs at the initial speed 8 the call changes
  nothing at all, so the beam is not paused; coming from the decay stage (speed 15) the
  speed is set to 8.
\<close>

theorem beam_death_speed:
  "lookup_or speeds (Some ''death'') 8 = Num 8
   \<and> currentSpeed (beam_syncToDecay (Some ''death'') p b) = Num 8
   \<and> beam_syncToDecay (Some ''death'') p (createBeamElements beam_constructor)
       = createBeamElements beam_constructor
   \<and> \<not> isPaused (beam_syncToDecay (Some ''death'') p (createBeamElements beam_constructor))
   \<and> currentSpeed (beam_syncToDecay (Some ''death'') p
        (beam_syncToDecay (Some ''decay'') p (createBeamElements beam_constructor))) = Num 8"
  by (simp add: beam_syncToDecay_def lookup_or_def lookup_stage_def stage_key_def speeds_def
      beam_pause_def
      beam_constructor_def createBeamElements_def Let_def)


section \<open>Properties of the particle field\<close>

lemma fade_from_enumerate:
  "map (\<lambda>ip. if k \<le> fst ip then fade (snd ip) else snd ip) (enumerate n ps)
     = take (k - n) ps @ map fade (drop (k - n) ps)"
proof (induction ps arbitrary: n)
  case Nil
  show ?case by simp
next
  case (Cons q ps)
  show ?case
  proof (cases "k \<le> n")
    case True
    then show ?thesis using Cons [of "Suc n"] by simp
  next
    case False
    then have "k - n = Suc (k - Suc n)" by simp
    then show ?thesis using False Cons [of "Suc n"] by simp
  qed
qed

lemma fade_from_take_drop: "fade_from k ps = take k ps @ map fade (drop k ps)"
  using fade_from_enumerate [of k 0 ps] by (simp add: fade_from_def)

lemma floor_two_fifths: "nat \<lfloor>of_nat n * (2 / 5 :: rat)\<rfloor> = 2 * n div 5"
proof -
  have "of_nat n * (2 / 5 :: rat) = of_int (int (2 * n)) / of_int 5" by simp
  then have "\<lfloor>of_nat n * (2 / 5 :: rat)\<rfloor> = int (2 * n) div 5"
    by (simp only: floor_divide_of_int_eq)
  then show ?thesis by (simp add: nat_div_distrib)
qed

lemma opacity_multiplier_table:
  assumes "stage_key st \<notin> set object_prototype_keys"
  shows "lookup_or opacityMultipliers st 1 =
     Num (if st = Some ''healthy'' then 1 else if st = Some ''panic'' then 4 / 5
          else if st = Some ''decay'' then 1 / 2 else if st = Some ''death'' then 1 / 5 else 1)"
  using assms
  by (cases st)
     (auto simp add: lookup_or_def lookup_stage_def stage_key_def opacityMultipliers_def
        object_prototype_keys_def)

text \<open>
  For the name of a member of \<open>Object.prototype\<close> the lookup finds that member, which
  is truthy, so the default is not applied.
\<close>

lemma opacity_multiplier_inherited:
  assumes "stage_key st \<in> set object_prototype_keys"
  shows "lookup_or opacityMultipliers st 1 = Inherited (stage_key st)"
  using assms
  by (cases st)
     (auto simp add: lookup_or_def lookup_stage_def stage_key_def opacityMultipliers_def
        object_prototype_keys_def)

text \<open>
  C9. On a particle field whose three containers exist, \<open>syncToDecay\<close> returns and
  records the stage. For a stage that is not the name of a member of
  \<open>Object.prototype\<close> (the five lifecycle stages are not) it sets the opacity multiplier
  to 1.0 for healthy, 0.8 for panic, 0.5 for decay, 0.2 for death and 1.0 for anything
  else. For the stage decay each layer of \<open>n\<close> particles keeps its first
  \<open>floor (0.4 * n)\<close> particles as they were and fades all particles from that index
  on; for death it fades all of them; for any other stage the particles are untouched.
  A faded particle has opacity 0.
\<close>

theorem particles_fade_by_index:
  assumes "field (far pd) = Some fs" and "field (mid pd) = Some ms" and "field (near pd) = Some ns"
  shows "\<exists>pd'. particles_syncToDecay st p pd = Returns pd'
      \<and> decayState pd' = st
      \<and> (stage_key st \<notin> set object_prototype_keys \<longrightarrow>
            particle_decay_multiplier pd' =
              Some (Num (if st = Some ''healthy'' then 1 else if st = Some ''panic'' then 4 / 5
                         else if st = Some ''decay'' then 1 / 2
                         else if st = Some ''death'' then 1 / 5 else 1)))
      \<and> (st = Some ''decay'' \<longrightarrow>
            field (far pd') = Some (take (2 * length fs div 5) fs
                                     @ map fade (drop (2 * length fs div 5) fs))
          \<and> field (mid pd') = Some (take (2 * length ms div 5) ms
                                     @ map fade (drop (2 * length ms div 5) ms))
          \<and> field (near pd') = Some (take (2 * length ns div 5) ns
                                     @ map fade (drop (2 * length ns div 5) ns))
          \<and> 2 * length fs div 5 = nat \<lfloor>(2 / 5 :: rat) * of_nat (length fs)\<rfloor>
          \<and> 2 * length ms div 5 = nat \<lfloor>(2 / 5 :: rat) * of_nat (length ms)\<rfloor>
          \<and> 2 * length ns div 5 = nat \<lfloor>(2 / 5 :: rat) * of_nat (length ns)\<rfloor>)
      \<and> (st = Some ''death'' \<longrightarrow>
            field (far pd') = Some (map fade fs) \<and> field (mid pd') = Some (map fade ms)
          \<and> field (near pd') = Some (map fade ns))
      \<and> (st \<noteq> Some ''decay'' \<and> st \<noteq> Some ''death'' \<longrightarrow>
            field (far pd') = Some fs \<and> field (mid pd') = Some ms \<and> field (near pd') = Some ns)
      \<and> (\<forall>q. opacity (fade q) = ''0'')"
  using assms floor_two_fifths [of "length fs"] floor_two_fifths [of "length ms"]
    floor_two_fifths [of "length ns"]
  by (simp add: particles_syncToDecay_def fadeOutRandomParticles_def fade_layer_def
      fade_from_take_drop opacity_multiplier_table fade_def Let_def mult.commute)

theorem particles_fade_by_index_witness:
  "field (far desktop_field) = Some (replicate 25 \<lparr>opacity = [], transition = []\<rparr>)
   \<and> field (mid desktop_field) = Some (replicate 18 \<lparr>opacity = [], transition = []\<rparr>)
   \<and> field (near desktop_field) = Some (replicate 7 \<lparr>opacity = [], transition = []\<rparr>)
   \<and> field (near (left_by (particles_syncToDecay (Some ''decay'') (Fin (1 / 2)) desktop_field)))
       = Some (replicate 2 \<lparr>opacity = [], transition = []\<rparr>
               @ replicate 5 \<lparr>opacity = ''0'', transition = ''opacity 2s ease-out''\<rparr>)
   \<and> field (far (left_by (particles_syncToDecay (Some ''decay'') (Fin (1 / 2)) desktop_field)))
       = Some (replicate 10 \<lparr>opacity = [], transition = []\<rparr>
               @ replicate 15 \<lparr>opacity = ''0'', transition = ''opacity 2s ease-out''\<rparr>)
   \<and> stage_key (Some ''decay'') \<notin> set object_prototype_keys
   \<and> particle_decay_multiplier
        (left_by (particles_syncToDecay (Some ''decay'') (Fin (1 / 2)) desktop_field))
       = Some (Num (1 / 2))"
proof -
  have f: "field (far desktop_field) = Some (replicate 25 \<lparr>opacity = [], transition = []\<rparr>)"
    and m: "field (mid desktop_field) = Some (replicate 18 \<lparr>opacity = [], transition = []\<rparr>)"
    and n: "field (near desktop_field) = Some (replicate 7 \<lparr>opacity = [], transition = []\<rparr>)"
    by (simp_all add: desktop_field_def createAllParticles_def createLayerParticles_def
        particles_constructor_def)
  have k: "stage_key (Some ''decay'') \<notin> set object_prototype_keys"
    by (simp add: stage_key_def object_prototype_keys_def)
  from particles_fade_by_index [OF f m n, of "Some ''decay''" "Fin (1 / 2)"] f m n k
  show ?thesis
    by (auto simp add: left_by_def fade_def)
qed

section \<open>Properties of the audio engine\<close>

lemma multiplier_at_cases:
  "multiplier_at 0 = Some 0" "multiplier_at 1 = Some (3 / 10)" "multiplier_at 2 = Some (3 / 5)"
  "multiplier_at 3 = Some 1"
  by (simp_all add: multiplier_at_def volumeMultipliers_def)

lemma setVolumeLevel_level: "volumeLevel (left_by (setVolumeLevel l a)) = l"
  by (simp add: setVolumeLevel_def setupSchumannHum_def setupCRTHum_def updateHumVolumes_def
      cleanupBeam_def cleanupSchumannHum_def cleanupCRTHum_def left_by_def Let_def
      split: option.splits)

lemma volume_click_level:
  assumes "0 \<le> volumeLevel a" and "volumeLevel a < 4"
  shows "0 \<le> volumeLevel (left_by (volume_click av a)) \<and> volumeLevel (left_by (volume_click av a)) < 4"
proof (cases "ready a")
  case True
  then have "volumeLevel (left_by (volume_click av a)) = js_rem4 (volumeLevel a + 1)"
    by (simp add: volume_click_def setVolumeLevel_level)
  then show ?thesis using assms by (simp add: js_rem4_def)
next
  case False
  show ?thesis
  proof (cases "fst (init av a)")
    case True
    with False have "volumeLevel (left_by (volume_click av a)) = 1"
      by (simp add: volume_click_def setVolumeLevel_level Let_def)
    then show ?thesis by simp
  next
    case f: False
    with False have "left_by (volume_click av a) = a"
      by (simp add: volume_click_def Let_def left_by_def init_def split: if_splits)
    then show ?thesis using assms by simp
  qed
qed

lemma ramp_to_map:
  "ramp_to v g = map_option (\<lambda>n. n\<lparr>ramps := ramps n @ [max (1 / 1000) v]\<rparr>) g"
  by (cases g) (simp_all add: ramp_to_def)

text \<open>
  C7, as the code has it. The multipliers of the levels 0, 1, 2, 3, 0, 1 are
  0, 0.3, 0.6, 1.0, 0, 0.3, and a click on the volume button keeps the level among
  0, 1, 2, 3. \<open>setVolumeLevel 0\<close> removes the hum, Schumann and beam nodes; no gain is
  ramped. For a level 1, 2 or 3 on an engine with a context and the base volume 0.04,
  the target volume is \<open>baseVolume * multiplier\<close>, positive and at most the base
  volume, and every gain the call writes is that target times the fixed factor of its
  node, computed from the base volume and never from the gain the node had: the
  Schumann pair is created with factors 1.8 and 0.6 when pirate mode has no carrier yet;
  the CRT hum is created with factors 1, 0.3 and 0.15 when there is none outside pirate
  mode and the death sequence; otherwise every existing gain of the five gets one more
  ramp to its value. The carrier's factor 1.8 takes its gain above the base volume.
\<close>

theorem volume_level_gains:
  assumes "has_context a" and "baseVolume a = 1 / 25" and "l = 1 \<or> l = 2 \<or> l = 3"
    and "0 \<le> volumeLevel b" and "volumeLevel b < 4"
  shows "map multiplier_at [0, 1, 2, 3, 0, 1]
           = [Some 0, Some (3 / 10), Some (3 / 5), Some 1, Some 0, Some (3 / 10)]
       \<and> 0 \<le> volumeLevel (left_by (volume_click av b))
       \<and> volumeLevel (left_by (volume_click av b)) < 4
       \<and> setVolumeLevel 0 a
           = Returns (cleanupBeam (cleanupSchumannHum (cleanupCRTHum (a\<lparr>volumeLevel := 0\<rparr>))))
       \<and> (\<exists>m a'. multiplier_at l = Some m \<and> 0 < m \<and> m \<le> 1
            \<and> setVolumeLevel l a = Returns a' \<and> volumeLevel a' = l
            \<and> (isPirateMode a \<and> schumannCarrier a = None \<longrightarrow>
                  schumannGain a' = Some \<lparr>gain_value = baseVolume a * m * (9 / 5), ramps = []\<rparr>
                \<and> schumannHarmonicGain a'
                    = Some \<lparr>gain_value = baseVolume a * m * (3 / 5), ramps = []\<rparr>
                \<and> humGain a' = humGain a \<and> harmonic2Gain a' = harmonic2Gain a
                \<and> harmonic3Gain a' = harmonic3Gain a)
            \<and> (\<not> isPirateMode a \<and> \<not> isDeathSequence a \<and> hum a = None \<longrightarrow>
                  humGain a' = Some \<lparr>gain_value = baseVolume a * m, ramps = []\<rparr>
                \<and> harmonic2Gain a' = Some \<lparr>gain_value = baseVolume a * m * (3 / 10), ramps = []\<rparr>
                \<and> harmonic3Gain a' = Some \<lparr>gain_value = baseVolume a * m * (3 / 20), ramps = []\<rparr>
                \<and> schumannGain a' = schumannGain a
                \<and> schumannHarmonicGain a' = schumannHarmonicGain a)
            \<and> (\<not> (isPirateMode a \<and> schumannCarrier a = None)
                \<and> \<not> (\<not> isPirateMode a \<and> \<not> isDeathSequence a \<and> hum a = None) \<longrightarrow>
                  humGain a'
                    = map_option (\<lambda>n. n\<lparr>ramps := ramps n @ [baseVolume a * m]\<rparr>) (humGain a)
                \<and> harmonic2Gain a'
                    = map_option (\<lambda>n. n\<lparr>ramps := ramps n @ [baseVolume a * m * (3 / 10)]\<rparr>)
                        (harmonic2Gain a)
                \<and> harmonic3Gain a'
                    = map_option (\<lambda>n. n\<lparr>ramps := ramps n @ [baseVolume a * m * (3 / 20)]\<rparr>)
                        (harmonic3Gain a)
                \<and> schumannGain a'
                    = map_option (\<lambda>n. n\<lparr>ramps := ramps n @ [baseVolume a * m * (9 / 5)]\<rparr>)
                        (schumannGain a)
                \<and> schumannHarmonicGain a'
                    = map_option (\<lambda>n. n\<lparr>ramps := ramps n @ [baseVolume a * m * (3 / 5)]\<rparr>)
                        (schumannHarmonicGain a))
            \<and> 0 < baseVolume a * m \<and> baseVolume a * m \<le> baseVolume a
            \<and> baseVolume a * m * (9 / 5) \<le> baseVolume a * (9 / 5))"
proof -
  have clicks: "0 \<le> volumeLevel (left_by (volume_click av b))
       \<and> volumeLevel (left_by (volume_click av b)) < 4"
    using volume_click_level [OF assms(4,5)] .
  have zero: "setVolumeLevel 0 a
           = Returns (cleanupBeam (cleanupSchumannHum (cleanupCRTHum (a\<lparr>volumeLevel := 0\<rparr>))))"
    by (simp add: setVolumeLevel_def)
  have tab: "map multiplier_at [0, 1, 2, 3, 0, 1]
           = [Some 0, Some (3 / 10), Some (3 / 5), Some 1, Some 0, Some (3 / 10)]"
    by (simp add: multiplier_at_cases)
  note defs = setVolumeLevel_def setupSchumannHum_def cleanupSchumannHum_def setupCRTHum_def
    cleanupCRTHum_def updateHumVolumes_def ramp_to_map new_gain_def Let_def multiplier_at_cases
  define m :: rat where "m = (if l = 1 then 3 / 10 else if l = 2 then 3 / 5 else 1)"
  note defs = defs m_def
  consider (A) "isPirateMode a \<and> schumannCarrier a = None"
    | (B) "\<not> isPirateMode a \<and> \<not> isDeathSequence a \<and> hum a = None"
    | (C) "\<not> (isPirateMode a \<and> schumannCarrier a = None)"
          "\<not> (\<not> isPirateMode a \<and> \<not> isDeathSequence a \<and> hum a = None)"
    by blast
  then have main: "\<exists>a'. multiplier_at l = Some m \<and> 0 < m \<and> m \<le> 1
            \<and> setVolumeLevel l a = Returns a' \<and> volumeLevel a' = l
            \<and> (isPirateMode a \<and> schumannCarrier a = None \<longrightarrow>
                  schumannGain a' = Some \<lparr>gain_value = baseVolume a * m * (9 / 5), ramps = []\<rparr>
                \<and> schumannHarmonicGain a'
                    = Some \<lparr>gain_value = baseVolume a * m * (3 / 5), ramps = []\<rparr>
                \<and> humGain a' = humGain a \<and> harmonic2Gain a' = harmonic2Gain a
                \<and> harmonic3Gain a' = harmonic3Gain a)
            \<and> (\<not> isPirateMode a \<and> \<not> isDeathSequence a \<and> hum a = None \<longrightarrow>
                  humGain a' = Some \<lparr>gain_value = baseVolume a * m, ramps = []\<rparr>
                \<and> harmonic2Gain a' = Some \<lparr>gain_value = baseVolume a * m * (3 / 10), ramps = []\<rparr>
                \<and> harmonic3Gain a' = Some \<lparr>gain_value = baseVolume a * m * (3 / 20), ramps = []\<rparr>
                \<and> schumannGain a' = schumannGain a
                \<and> schumannHarmonicGain a' = schumannHarmonicGain a)
            \<and> (\<not> (isPirateMode a \<and> schumannCarrier a = None)
                \<and> \<not> (\<not> isPirateMode a \<and> \<not> isDeathSequence a \<and> hum a = None) \<longrightarrow>
                  humGain a'
                    = map_option (\<lambda>n. n\<lparr>ramps := ramps n @ [baseVolume a * m]\<rparr>) (humGain a)
                \<and> harmonic2Gain a'
                    = map_option (\<lambda>n. n\<lparr>ramps := ramps n @ [baseVolume a * m * (3 / 10)]\<rparr>)
                        (harmonic2Gain a)
                \<and> harmonic3Gain a'
                    = map_option (\<lambda>n. n\<lparr>ramps := ramps n @ [baseVolume a * m * (3 / 20)]\<rparr>)
                        (harmonic3Gain a)
                \<and> schumannGain a'
                    = map_option (\<lambda>n. n\<lparr>ramps := ramps n @ [baseVolume a * m * (9 / 5)]\<rparr>)
                        (schumannGain a)
                \<and> schumannHarmonicGain a'
                    = map_option (\<lambda>n. n\<lparr>ramps := ramps n @ [baseVolume a * m * (3 / 5)]\<rparr>)
                        (schumannHarmonicGain a))
            \<and> 0 < baseVolume a * m \<and> baseVolume a * m \<le> baseVolume a
            \<and> baseVolume a * m * (9 / 5) \<le> baseVolume a * (9 / 5)"
  proof cases
    case A
    from assms(3) show ?thesis
      by (elim disjE) (simp_all add: defs A assms(1,2))
  next
    case B
    from assms(3) show ?thesis
      by (elim disjE) (simp_all add: defs B assms(1,2))
  next
    case C
    from assms(3) C show ?thesis
      by (elim disjE) (auto simp add: defs assms(1,2))
  qed
  from tab clicks zero main show ?thesis by blast
qed

theorem volume_level_gains_witness:
  "has_context audio_low \<and> baseVolume audio_low = 1 / 25 \<and> ((2::int) = 1 \<or> (2::int) = 2 \<or> (2::int) = 3)
   \<and> 0 \<le> volumeLevel audio_low \<and> volumeLevel audio_low < 4
   \<and> humGain audio_low = Some \<lparr>gain_value = 3 / 250, ramps = []\<rparr>
   \<and> humGain (left_by (setVolumeLevel 2 audio_low))
       = Some \<lparr>gain_value = 3 / 250, ramps = [3 / 125]\<rparr>
   \<and> volumeLevel (left_by (volume_click True audio_low)) = 2"
  using volume_level_gains [of audio_low 2 audio_low True]
  by (simp add: audio_low_def volume_click_def init_def audio_constructor_def
      setVolumeLevel_def setupCRTHum_def cleanupCRTHum_def multiplier_at_def volumeMultipliers_def
      updateHumVolumes_def ramp_to_def new_gain_def left_by_def js_rem4_def Let_def)

text \<open>
  In pirate mode at level 1 the carrier's gain is 0.0216; \<open>setVolumeLevel 2\<close> ramps it
  to 0.0432 and \<open>setVolumeLevel 3\<close> to 0.072, both above the base volume 0.04.
\<close>

theorem schumann_gain_counterexample:
  "isPirateMode pirate_audio \<and> volumeLevel pirate_audio = 1 \<and> baseVolume pirate_audio = 1 / 25
   \<and> schumannGain pirate_audio = Some \<lparr>gain_value = 27 / 1250, ramps = []\<rparr>
   \<and> schumannGain (left_by (setVolumeLevel 2 pirate_audio))
       = Some \<lparr>gain_value = 27 / 1250, ramps = [27 / 625]\<rparr>
   \<and> (1 / 25 :: rat) < 27 / 625
   \<and> schumannGain (left_by (setVolumeLevel 3 (left_by (setVolumeLevel 2 pirate_audio))))
       = Some \<lparr>gain_value = 27 / 1250, ramps = [27 / 625, 9 / 125]\<rparr>"
  by (simp add: pirate_audio_def audio_low_def volume_click_def init_def audio_constructor_def
      setVolumeLevel_def setupCRTHum_def cleanupCRTHum_def multiplier_at_def volumeMultipliers_def
      beginPirateTransition_def ramp_to_def pirate_transition_timeout_def setupSchumannHum_def
      cleanupSchumannHum_def updateHumVolumes_def new_gain_def left_by_def Let_def)

end
